theory Spec2Isabelle
  imports Complex_Main "HOL-Library.AList" "HOL-Library.Char_ord" "HOL-Library.List_Lexorder"
begin

section \<open>Python values, dictionaries and the table behind a CSV file\<close>

text \<open>
  The back end keeps every entity in a flat CSV file that is loaded with pandas on each
  call (\<^verbatim>\<open>CSVHandler.read_all\<close>) and written back whole after each mutation
  (\<^verbatim>\<open>CSVHandler.save_dataframe\<close>). The records that flow through the handlers are
  Python dictionaries with dynamically typed values.

  \<^item> A Python value is a \<open>pyval\<close>. A float is modelled by a rational number: finite
    values with exact arithmetic (no NaN, no infinity, no rounding).
  \<^item> A dictionary is an association list in insertion order, read with \<open>map_of\<close>
    and written with \<open>AList.update\<close> (an existing key keeps its place, a new key is
    appended).
  \<^item> A table is the list of row dictionaries of the loaded DataFrame. A cell a row has
    no value for is a missing key. Saving and loading again is taken to give the same
    rows back: the textual CSV form is not part of the model. The types of the columns
    are: they decide what \<^verbatim>\<open>CSVHandler.update\<close> can write.
\<close>

datatype pyval =
    PNone
  | PBool bool
  | PInt int
  | PFloat rat
  | PStr string
  | PList "pyval list"
  | PDict "(string \<times> pyval) list"

type_synonym pydict = "(string \<times> pyval) list"

type_synonym table = "pydict list"

datatype py_error = TypeError | ValueError | AttributeError

text \<open>
  The columns of a loaded DataFrame are typed. \<^verbatim>\<open>read_all\<close> asks for \<^verbatim>\<open>str\<close> in the key
  columns and lets pandas infer the others: \<^verbatim>\<open>int64\<close> when every cell is an integer of 64
  bits, \<^verbatim>\<open>float64\<close> when every cell is a float, \<^verbatim>\<open>bool\<close> when every cell is a bool,
  \<^verbatim>\<open>str\<close> when every cell is text. \<open>dtype_of\<close> reads the type of a column off its cells.
  A column that is none of the four (cells of several kinds, a row without the cell) is
  not the result of a load; the model gives it the type \<open>Object\<close>, which holds any value.
\<close>

datatype dtype = Int64 | Float64 | Bool | Str | Object

definition in_int64 :: "int \<Rightarrow> bool" where
  "in_int64 n = (- 9223372036854775808 \<le> n \<and> n \<le> 9223372036854775807)"

definition column :: "table \<Rightarrow> string \<Rightarrow> pyval option list" where
  "column df key = map (\<lambda>row. map_of row key) df"

definition has_column :: "table \<Rightarrow> string \<Rightarrow> bool" where
  "has_column df key = list_ex (\<lambda>row. map_of row key \<noteq> None) df"

fun int_cell :: "pyval option \<Rightarrow> bool" where
  "int_cell (Some (PInt n)) = in_int64 n"
| "int_cell c = False"

fun float_cell :: "pyval option \<Rightarrow> bool" where
  "float_cell (Some (PFloat x)) = True"
| "float_cell c = False"

fun bool_cell :: "pyval option \<Rightarrow> bool" where
  "bool_cell (Some (PBool b)) = True"
| "bool_cell c = False"

fun str_cell :: "pyval option \<Rightarrow> bool" where
  "str_cell (Some (PStr s)) = True"
| "str_cell c = False"

definition dtype_of :: "pyval option list \<Rightarrow> dtype" where
  "dtype_of cells =
     (if list_all int_cell cells then Int64
      else if list_all float_cell cells then Float64
      else if list_all bool_cell cells then Bool
      else if list_all str_cell cells then Str
      else Object)"

text \<open>
  Functions of Python's standard library that the handlers call on text: the JSON codec,
  \<^verbatim>\<open>int(s)\<close> and \<^verbatim>\<open>float(s)\<close> of a string (\<open>None\<close> where Python raises
  \<^verbatim>\<open>ValueError\<close>, respectively \<^verbatim>\<open>JSONDecodeError\<close>), and \<^verbatim>\<open>str(v)\<close> of a value
  that is not a string. They are not code of this repository, so the model takes them as
  a parameter; every theorem below holds for whatever these functions are.
\<close>

record pylib =
  json_dumps :: "pyval \<Rightarrow> string"
  json_loads :: "string \<Rightarrow> pyval option"
  int_of_str :: "string \<Rightarrow> int option"
  float_of_str :: "string \<Rightarrow> rat option"
  repr_of :: "pyval \<Rightarrow> string"

fun bnd :: "'e + 'a \<Rightarrow> ('a \<Rightarrow> 'e + 'b) \<Rightarrow> 'e + 'b" where
  "bnd (Inl e) f = Inl e"
| "bnd (Inr x) f = f x"

text \<open>\<^verbatim>\<open>str(v)\<close>: a string is returned as it is.\<close>

fun py_str :: "pylib \<Rightarrow> pyval \<Rightarrow> string" where
  "py_str L (PStr s) = s"
| "py_str L v = repr_of L v"

text \<open>\<^verbatim>\<open>int(v)\<close>: truncation toward zero for a float, parsing for a string.\<close>

definition trunc :: "rat \<Rightarrow> int" where
  "trunc r = (if 0 \<le> r then \<lfloor>r\<rfloor> else \<lceil>r\<rceil>)"

fun py_int :: "pylib \<Rightarrow> pyval \<Rightarrow> py_error + int" where
  "py_int L (PInt n) = Inr n"
| "py_int L (PBool b) = Inr (if b then 1 else 0)"
| "py_int L (PFloat r) = Inr (trunc r)"
| "py_int L (PStr s) = (case int_of_str L s of None \<Rightarrow> Inl ValueError | Some n \<Rightarrow> Inr n)"
| "py_int L v = Inl TypeError"

fun py_float :: "pylib \<Rightarrow> pyval \<Rightarrow> py_error + rat" where
  "py_float L (PInt n) = Inr (of_int n)"
| "py_float L (PBool b) = Inr (if b then 1 else 0)"
| "py_float L (PFloat r) = Inr r"
| "py_float L (PStr s) = (case float_of_str L s of None \<Rightarrow> Inl ValueError | Some r \<Rightarrow> Inr r)"
| "py_float L v = Inl TypeError"

text \<open>Truthiness of the values the endpoints test with \<^verbatim>\<open>if x:\<close>.\<close>

fun truthy :: "pyval \<Rightarrow> bool" where
  "truthy PNone = False"
| "truthy (PBool b) = b"
| "truthy (PInt n) = (n \<noteq> 0)"
| "truthy (PFloat r) = (r \<noteq> 0)"
| "truthy (PStr s) = (s \<noteq> [])"
| "truthy (PList xs) = (xs \<noteq> [])"
| "truthy (PDict kvs) = (kvs \<noteq> [])"

text \<open>
  The test \<^verbatim>\<open>pd.isna(value) or value == 'nan' or str(value).lower() == 'nan'\<close>
  of the three record normalisers. \<^verbatim>\<open>pd.isna\<close> holds of \<^verbatim>\<open>None\<close>; \<^verbatim>\<open>str\<close> of a
  bool, an int, a finite float, a list or a dict never spells \<^verbatim>\<open>nan\<close>, so the
  comparison can only hold of a string. The cells and request fields that reach the test
  are scalars (structured fields are serialised to text first).
\<close>

definition ascii_lower :: "char \<Rightarrow> char" where
  "ascii_lower c =
     (case map_of (zip ''ABCDEFGHIJKLMNOPQRSTUVWXYZ'' ''abcdefghijklmnopqrstuvwxyz'') c of
        None \<Rightarrow> c | Some d \<Rightarrow> d)"

fun nan_like :: "pyval \<Rightarrow> bool" where
  "nan_like PNone = True"
| "nan_like (PStr s) = (map ascii_lower s = ''nan'')"
| "nan_like v = False"

section \<open>The generic record store: \<^verbatim>\<open>CSVHandler\<close>\<close>

text \<open>\<^verbatim>\<open>df['id'] == record_id\<close> on one row.\<close>

definition id_is :: "string \<Rightarrow> pydict \<Rightarrow> bool" where
  "id_is record_id row = (map_of row ''id'' = Some (PStr record_id))"

text \<open>
  \<^verbatim>\<open>find_by_id\<close>: \<^verbatim>\<open>None\<close> on an empty table or when no row matches, else the first
  matching row.
\<close>

definition find_by_id :: "table \<Rightarrow> string \<Rightarrow> pydict option" where
  "find_by_id df record_id = find (id_is record_id) df"

text \<open>
  \<^verbatim>\<open>create\<close>: the dictionary gets a fresh key (\<open>uid\<close>, the value of
  \<^verbatim>\<open>str(uuid4())\<close>) when it has none, is appended and returned.
\<close>

definition create :: "string \<Rightarrow> table \<Rightarrow> pydict \<Rightarrow> pydict \<times> table" where
  "create uid df data =
     (let data' = (if map_of data ''id'' = None then AList.update ''id'' (PStr uid) data else data)
      in (data', df @ [data']))"

text \<open>
  The assignment \<^verbatim>\<open>df.loc[mask, key] = value\<close> of \<^verbatim>\<open>update\<close> goes through the type of
  the column (pandas 3: a scalar the column's type cannot hold raises \<^verbatim>\<open>TypeError\<close>, the
  column is not re-typed for it). \<open>coerce d v\<close> is what a column of type \<open>d\<close> stores for
  the scalar \<open>v\<close>:

  \<^item> an \<^verbatim>\<open>int64\<close> column holds an integer of 64 bits, and a float without fraction as
    that integer; \<^verbatim>\<open>None\<close> is stored as the missing value, for which the column becomes
    \<^verbatim>\<open>float64\<close> (see \<open>assign\<close>); a larger integer, a float with a fraction, a bool and
    text raise;
  \<^item> a \<^verbatim>\<open>float64\<close> column holds a float, an integer as a float, and \<^verbatim>\<open>None\<close>;
  \<^item> a \<^verbatim>\<open>bool\<close> column holds a bool only;
  \<^item> a \<^verbatim>\<open>str\<close> column holds text and \<^verbatim>\<open>None\<close>.

  A list or a dict on the right-hand side is not a scalar: pandas spreads it over the
  selected cells. The entity handlers serialise their structured fields before they call
  \<^verbatim>\<open>update\<close>; the model answers \<^verbatim>\<open>ValueError\<close> for such a value.
\<close>

fun coerce :: "dtype \<Rightarrow> pyval \<Rightarrow> py_error + pyval" where
  "coerce d (PList xs) = Inl ValueError"
| "coerce d (PDict kvs) = Inl ValueError"
| "coerce Object v = Inr v"
| "coerce Int64 (PInt n) = (if in_int64 n then Inr (PInt n) else Inl TypeError)"
| "coerce Int64 (PFloat x) =
     (if x = of_int \<lfloor>x\<rfloor> \<and> in_int64 \<lfloor>x\<rfloor> then Inr (PInt \<lfloor>x\<rfloor>) else Inl TypeError)"
| "coerce Int64 PNone = Inr PNone"
| "coerce Float64 (PInt n) = Inr (PFloat (of_int n))"
| "coerce Float64 (PFloat x) = Inr (PFloat x)"
| "coerce Float64 PNone = Inr PNone"
| "coerce Bool (PBool b) = Inr (PBool b)"
| "coerce Str (PStr s) = Inr (PStr s)"
| "coerce Str PNone = Inr PNone"
| "coerce d v = Inl TypeError"

text \<open>
  A key that is not a column yet makes a new column: every row gets the cell, missing
  (\<^verbatim>\<open>NaN\<close>) in the rows that are not selected. The new column of a number is
  \<^verbatim>\<open>float64\<close>, so an integer is stored as a float.
\<close>

fun new_cell :: "pyval \<Rightarrow> py_error + pyval" where
  "new_cell (PList xs) = Inl ValueError"
| "new_cell (PDict kvs) = Inl ValueError"
| "new_cell (PInt n) = Inr (PFloat (of_int n))"
| "new_cell v = Inr v"

text \<open>The cell of a row after its \<^verbatim>\<open>int64\<close> column has become \<^verbatim>\<open>float64\<close>.\<close>

definition as_float :: "string \<Rightarrow> pydict \<Rightarrow> pydict" where
  "as_float key row =
     (case map_of row key of
        Some (PInt n) \<Rightarrow> AList.update key (PFloat (of_int n)) row
      | _ \<Rightarrow> row)"

text \<open>
  \<open>assign\<close> is \<^verbatim>\<open>df.loc[mask, key] = value\<close> with the mask \<^verbatim>\<open>df['id'] == record_id\<close>.
  The mask is computed once, before the loop; no assignment touches the \<^verbatim>\<open>id\<close> column,
  so testing the row as it is now selects the same rows.
\<close>

definition assign :: "string \<Rightarrow> string \<Rightarrow> pyval \<Rightarrow> table \<Rightarrow> py_error + table" where
  "assign record_id key v df =
     (if has_column df key then
        (let d = dtype_of (column df key) in
         bnd (coerce d v) (\<lambda>c.
           Inr (map (\<lambda>row. if id_is record_id row then AList.update key c row
                           else if d = Int64 \<and> v = PNone then as_float key row
                           else row)
                  df)))
      else
        bnd (new_cell v) (\<lambda>c.
          Inr (map (\<lambda>row. AList.update key (if id_is record_id row then c else PNone) row)
                 df)))"

text \<open>
  The loop \<^verbatim>\<open>for key, value in data.items(): if key != 'id': df.loc[mask, key] = value\<close>.
\<close>

fun assign_all :: "string \<Rightarrow> pydict \<Rightarrow> table \<Rightarrow> py_error + table" where
  "assign_all record_id [] df = Inr df"
| "assign_all record_id ((key, v) # rest) df =
     (if key \<noteq> ''id'' then bnd (assign record_id key v df) (assign_all record_id rest)
      else assign_all record_id rest df)"

text \<open>
  \<^verbatim>\<open>update\<close>: \<^verbatim>\<open>None\<close>, and nothing saved, on an empty table or when no row matches;
  else the fields of the payload are assigned in turn, the table is saved and the first
  matching row is returned. The table is saved after the loop: when an assignment raises,
  the file stays as it was, also for the fields assigned before.
\<close>

definition update :: "table \<Rightarrow> string \<Rightarrow> pydict \<Rightarrow> py_error + (pydict option \<times> table)" where
  "update df record_id data =
     (if df = [] then Inr (None, df)
      else if \<not> list_ex (id_is record_id) df then Inr (None, df)
      else
        bnd (assign_all record_id data df) (\<lambda>df'.
          Inr (find (id_is record_id) df', df')))"

text \<open>
  \<^verbatim>\<open>delete\<close>: \<^verbatim>\<open>False\<close>, and nothing saved, on an empty table or when the filtered
  table is as long as before; else the filtered table is saved.
\<close>

definition delete :: "table \<Rightarrow> string \<Rightarrow> bool \<times> table" where
  "delete df record_id =
     (if df = [] then (False, df)
      else
        (let df' = filter (\<lambda>row. \<not> id_is record_id row) df
         in if length df' = length df then (False, df) else (True, df')))"

definition get_all :: "table \<Rightarrow> pydict list" where
  "get_all df = df"

section \<open>The schema codecs\<close>

text \<open>
  Helpers shared by the three normalisers \<^verbatim>\<open>_process_product_record\<close>,
  \<^verbatim>\<open>_process_customer_record\<close> and \<^verbatim>\<open>_process_sale_record\<close>.
  \<open>force_str\<close> is \<^verbatim>\<open>if k in record: record[k] = str(record[k])\<close>;
  \<open>float_unless_none\<close> and \<open>int_unless_none\<close> are the guarded conversions
  \<^verbatim>\<open>if k in record and record[k] is not None: try: record[k] = float(record[k])\<close>
  \<^verbatim>\<open>except (ValueError, TypeError): record[k] = 0.0\<close> (and the same with \<^verbatim>\<open>int\<close> and
  \<^verbatim>\<open>0\<close>); \<open>float_or_zero\<close> and \<open>int_or_zero\<close> are the customer codec's
  \<^verbatim>\<open>float(record[k]) if record[k] is not None else 0.0\<close> under the same \<^verbatim>\<open>try\<close>;
  \<open>decode_field\<close> decodes a structured sub-field from its text, with the default on
  malformed text, on a missing key and on \<^verbatim>\<open>None\<close>.
\<close>

definition force_str :: "pylib \<Rightarrow> string \<Rightarrow> pydict \<Rightarrow> pydict" where
  "force_str L k record =
     (case map_of record k of
        None \<Rightarrow> record
      | Some v \<Rightarrow> AList.update k (PStr (py_str L v)) record)"

definition float_unless_none :: "pylib \<Rightarrow> string \<Rightarrow> pydict \<Rightarrow> pydict" where
  "float_unless_none L k record =
     (case map_of record k of
        None \<Rightarrow> record
      | Some PNone \<Rightarrow> record
      | Some v \<Rightarrow>
          AList.update k (PFloat (case py_float L v of Inl e \<Rightarrow> 0 | Inr x \<Rightarrow> x)) record)"

definition int_unless_none :: "pylib \<Rightarrow> string \<Rightarrow> pydict \<Rightarrow> pydict" where
  "int_unless_none L k record =
     (case map_of record k of
        None \<Rightarrow> record
      | Some PNone \<Rightarrow> record
      | Some v \<Rightarrow>
          AList.update k (PInt (case py_int L v of Inl e \<Rightarrow> 0 | Inr n \<Rightarrow> n)) record)"

definition float_or_zero :: "pylib \<Rightarrow> string \<Rightarrow> pydict \<Rightarrow> pydict" where
  "float_or_zero L k record =
     (case map_of record k of
        None \<Rightarrow> record
      | Some v \<Rightarrow>
          AList.update k
            (PFloat (if v = PNone then 0 else (case py_float L v of Inl e \<Rightarrow> 0 | Inr x \<Rightarrow> x)))
            record)"

definition int_or_zero :: "pylib \<Rightarrow> string \<Rightarrow> pydict \<Rightarrow> pydict" where
  "int_or_zero L k record =
     (case map_of record k of
        None \<Rightarrow> record
      | Some v \<Rightarrow>
          AList.update k
            (PInt (if v = PNone then 0 else (case py_int L v of Inl e \<Rightarrow> 0 | Inr n \<Rightarrow> n)))
            record)"

definition decode_field :: "pylib \<Rightarrow> string \<Rightarrow> pyval \<Rightarrow> pydict \<Rightarrow> pydict" where
  "decode_field L k dflt record =
     (case map_of record k of
        Some (PStr s) \<Rightarrow>
          AList.update k (case json_loads L s of None \<Rightarrow> dflt | Some v \<Rightarrow> v) record
      | None \<Rightarrow> AList.update k dflt record
      | Some PNone \<Rightarrow> AList.update k dflt record
      | Some v \<Rightarrow> record)"

subsection \<open>Products\<close>

definition product_default :: "string \<Rightarrow> pyval" where
  "product_default key =
     (if key \<in> set [''description'', ''image''] then PStr ''''
      else if key \<in> set [''price'', ''cost''] then PFloat 0
      else if key \<in> set [''stock''] then PInt 0
      else PNone)"

definition process_product_record :: "pylib \<Rightarrow> pydict \<Rightarrow> pydict" where
  "process_product_record L record =
     decode_field L ''variants'' (PList [])
       (int_unless_none L ''stock''
         (float_unless_none L ''cost''
           (float_unless_none L ''price''
             (force_str L ''id''
               (map (\<lambda>(key, v). if nan_like v then (key, product_default key) else (key, v))
                  record)))))"

text \<open>
  The hook of \<^verbatim>\<open>ProductCSVHandler.create\<close> and \<^verbatim>\<open>ProductCSVHandler.update\<close>: a
  list of variants is serialised; text is kept when it decodes and replaced by \<^verbatim>\<open>'[]'\<close>
  when it does not; any other value is replaced by \<^verbatim>\<open>'[]'\<close>.
\<close>

definition encode_variants :: "pylib \<Rightarrow> pydict \<Rightarrow> pydict" where
  "encode_variants L data =
     (case map_of data ''variants'' of
        None \<Rightarrow> data
      | Some (PList xs) \<Rightarrow> AList.update ''variants'' (PStr (json_dumps L (PList xs))) data
      | Some (PStr s) \<Rightarrow>
          (case json_loads L s of
             None \<Rightarrow> AList.update ''variants'' (PStr ''[]'') data
           | Some v \<Rightarrow> data)
      | Some v \<Rightarrow> AList.update ''variants'' (PStr ''[]'') data)"

definition product_create :: "pylib \<Rightarrow> string \<Rightarrow> table \<Rightarrow> pydict \<Rightarrow> pydict \<times> table" where
  "product_create L uid df data =
     (case create uid df (encode_variants L data) of
        (created_record, df') \<Rightarrow> (process_product_record L created_record, df'))"

definition product_update ::
  "pylib \<Rightarrow> table \<Rightarrow> string \<Rightarrow> pydict \<Rightarrow> py_error + (pydict option \<times> table)" where
  "product_update L df record_id data =
     (case update df record_id (encode_variants L data) of
        Inl e \<Rightarrow> Inl e
      | Inr (None, df') \<Rightarrow> Inr (None, df')
      | Inr (Some updated_record, df') \<Rightarrow>
          Inr (Some (process_product_record L updated_record), df'))"

definition product_find_by_id :: "pylib \<Rightarrow> table \<Rightarrow> string \<Rightarrow> pydict option" where
  "product_find_by_id L df record_id =
     (case find_by_id df record_id of
        None \<Rightarrow> None
      | Some record \<Rightarrow> Some (process_product_record L record))"

text \<open>\<^verbatim>\<open>find_by_sku\<close>: the first row whose \<^verbatim>\<open>sku\<close> cell equals the text, normalised.\<close>

definition find_by_sku :: "pylib \<Rightarrow> table \<Rightarrow> string \<Rightarrow> pydict option" where
  "find_by_sku L df sku =
     (case find (\<lambda>row. map_of row ''sku'' = Some (PStr sku)) df of
        None \<Rightarrow> None
      | Some record \<Rightarrow> Some (process_product_record L record))"

definition product_get_all :: "pylib \<Rightarrow> table \<Rightarrow> pydict list" where
  "product_get_all L df = map (process_product_record L) df"

subsection \<open>Customers\<close>

definition customer_default :: "string \<Rightarrow> pyval" where
  "customer_default key =
     (if key \<in> set [''alternate_phone'', ''email'', ''address'', ''gender'', ''last_visit'']
      then PNone
      else if key \<in> set [''loyalty_points'', ''visits''] then PInt 0
      else if key \<in> set [''total_spent''] then PFloat 0
      else PNone)"

definition process_customer_record :: "pylib \<Rightarrow> pydict \<Rightarrow> pydict" where
  "process_customer_record L record =
     decode_field L ''preferences'' (PDict [])
       (int_or_zero L ''visits''
         (float_or_zero L ''total_spent''
           (int_or_zero L ''loyalty_points''
             (force_str L ''id''
               (map (\<lambda>(key, v).
                       if nan_like v \<or> v = PStr '''' then (key, customer_default key)
                       else (key, v))
                  record)))))"

definition encode_preferences :: "pylib \<Rightarrow> pydict \<Rightarrow> pydict" where
  "encode_preferences L data =
     (case map_of data ''preferences'' of
        Some (PDict kvs) \<Rightarrow>
          AList.update ''preferences'' (PStr (json_dumps L (PDict kvs))) data
      | _ \<Rightarrow> data)"

definition customer_update ::
  "pylib \<Rightarrow> table \<Rightarrow> string \<Rightarrow> pydict \<Rightarrow> py_error + (pydict option \<times> table)" where
  "customer_update L df record_id data =
     (case update df record_id (encode_preferences L data) of
        Inl e \<Rightarrow> Inl e
      | Inr (None, df') \<Rightarrow> Inr (None, df')
      | Inr (Some updated_record, df') \<Rightarrow>
          Inr (Some (process_customer_record L updated_record), df'))"

definition customer_find_by_id :: "pylib \<Rightarrow> table \<Rightarrow> string \<Rightarrow> pydict option" where
  "customer_find_by_id L df record_id =
     (case find_by_id df record_id of
        None \<Rightarrow> None
      | Some record \<Rightarrow> Some (process_customer_record L record))"

subsection \<open>Sales\<close>

definition sale_default :: "string \<Rightarrow> pyval" where
  "sale_default key =
     (if key \<in> set [''customer_id'', ''timestamp''] then PNone
      else if key \<in> set [''paid_amount'', ''remaining_amount''] then PFloat 0
      else PNone)"

definition process_sale_record :: "pylib \<Rightarrow> pydict \<Rightarrow> pydict" where
  "process_sale_record L record =
     decode_field L ''items'' (PList [])
       (float_unless_none L ''remaining_amount''
         (float_unless_none L ''paid_amount''
           (float_unless_none L ''total''
             (float_unless_none L ''subtotal''
               (force_str L ''cashier_id''
                 (force_str L ''id''
                   (map (\<lambda>(key, v). if nan_like v then (key, sale_default key) else (key, v))
                      record)))))))"

definition encode_items :: "pylib \<Rightarrow> pydict \<Rightarrow> pydict" where
  "encode_items L data =
     (case map_of data ''items'' of
        Some (PList xs) \<Rightarrow> AList.update ''items'' (PStr (json_dumps L (PList xs))) data
      | _ \<Rightarrow> data)"

text \<open>
  The payment branch of \<^verbatim>\<open>SalesCSVHandler.create\<close>. It is entered when the dictionary
  has both keys, whatever their values; \<^verbatim>\<open>float(...)\<close> of either value can raise.
\<close>

definition payment_status :: "pylib \<Rightarrow> pydict \<Rightarrow> py_error + pydict" where
  "payment_status L data =
     (case (map_of data ''paid_amount'', map_of data ''total'') of
        (Some p, Some t) \<Rightarrow>
          bnd (py_float L p) (\<lambda>paid_amount.
          bnd (py_float L t) (\<lambda>total.
            if paid_amount \<ge> total then
              Inr (AList.update ''paid_amount'' (PFloat total)
                    (AList.update ''remaining_amount'' (PInt 0)
                      (AList.update ''status'' (PStr ''completed'') data)))
            else
              Inr (AList.update ''remaining_amount'' (PFloat (total - paid_amount))
                    (AList.update ''status'' (PStr ''partial_payment'') data))))
      | _ \<Rightarrow> Inr data)"

text \<open>
  \<^verbatim>\<open>SalesCSVHandler.create\<close>; \<open>now\<close> is \<^verbatim>\<open>datetime.utcnow().isoformat()\<close> and \<open>uid\<close>
  is \<^verbatim>\<open>str(uuid4())\<close>. An exception leaves the table as it was.
\<close>

definition sales_create ::
  "pylib \<Rightarrow> string \<Rightarrow> string \<Rightarrow> table \<Rightarrow> pydict \<Rightarrow> py_error + (pydict \<times> table)" where
  "sales_create L now uid df data =
     (let d1 = encode_items L data;
          d2 = (if map_of d1 ''timestamp'' = None then AList.update ''timestamp'' (PStr now) d1
                else d1)
      in bnd (payment_status L d2) (\<lambda>d3.
           case create uid df d3 of
             (created_record, df') \<Rightarrow> Inr (process_sale_record L created_record, df')))"

definition sales_get_all :: "pylib \<Rightarrow> table \<Rightarrow> pydict list" where
  "sales_get_all L df = map (process_sale_record L) df"

section \<open>The request models and their dictionaries\<close>

text \<open>
  The request bodies as pydantic hands them to the endpoints, already validated and typed
  (\<^verbatim>\<open>models/product.py\<close>, \<^verbatim>\<open>models/sales.py\<close>), and \<^verbatim>\<open>.dict()\<close>: every field of the model
  is a key of the dictionary, an omitted optional field with the value \<^verbatim>\<open>None\<close>. An
  enumeration member is a string (the classes derive from \<^verbatim>\<open>str\<close>).
\<close>

record ProductVariant =
  v_id :: string
  v_size :: string
  v_color :: string
  v_stock :: int
  v_sku :: string

record ProductCreate =
  p_name :: string
  p_category :: string
  p_price :: rat
  p_cost :: rat
  p_stock :: int
  p_sku :: string
  p_description :: "string option"
  p_image :: "string option"
  p_variants :: "ProductVariant list"

datatype PaymentMethod = CASH | CREDIT_CARD | DEBIT_CARD | MOBILE_PAYMENT

datatype SaleStatus = COMPLETED | PARTIAL_PAYMENT | REFUNDED | PARTIAL_REFUND | CANCELLED

record SaleItem =
  product_id :: string
  variant_id :: "string option"
  quantity :: int
  price :: rat
  product_name :: "string option"

record SaleCreate =
  customer_id :: "string option"
  items :: "SaleItem list"
  subtotal :: rat
  total :: rat
  payment_method :: PaymentMethod
  cashier_id :: string
  timestamp :: "string option"
  status :: SaleStatus
  paid_amount :: "rat option"
  remaining_amount :: "rat option"

fun payment_method_value :: "PaymentMethod \<Rightarrow> string" where
  "payment_method_value CASH = ''cash''"
| "payment_method_value CREDIT_CARD = ''credit_card''"
| "payment_method_value DEBIT_CARD = ''debit_card''"
| "payment_method_value MOBILE_PAYMENT = ''mobile_payment''"

fun sale_status_value :: "SaleStatus \<Rightarrow> string" where
  "sale_status_value COMPLETED = ''completed''"
| "sale_status_value PARTIAL_PAYMENT = ''partial_payment''"
| "sale_status_value REFUNDED = ''refunded''"
| "sale_status_value PARTIAL_REFUND = ''partial_refund''"
| "sale_status_value CANCELLED = ''cancelled''"

definition opt_str :: "string option \<Rightarrow> pyval" where
  "opt_str x = (case x of None \<Rightarrow> PNone | Some s \<Rightarrow> PStr s)"

definition opt_float :: "rat option \<Rightarrow> pyval" where
  "opt_float x = (case x of None \<Rightarrow> PNone | Some r \<Rightarrow> PFloat r)"

definition variant_dict :: "ProductVariant \<Rightarrow> pyval" where
  "variant_dict v =
     PDict [(''id'', PStr (v_id v)), (''size'', PStr (v_size v)), (''color'', PStr (v_color v)),
            (''stock'', PInt (v_stock v)), (''sku'', PStr (v_sku v))]"

definition product_dict :: "ProductCreate \<Rightarrow> pydict" where
  "product_dict p =
     [(''name'', PStr (p_name p)), (''category'', PStr (p_category p)),
      (''price'', PFloat (p_price p)), (''cost'', PFloat (p_cost p)),
      (''stock'', PInt (p_stock p)), (''sku'', PStr (p_sku p)),
      (''description'', opt_str (p_description p)), (''image'', opt_str (p_image p)),
      (''variants'', PList (map variant_dict (p_variants p)))]"

definition item_dict :: "SaleItem \<Rightarrow> pyval" where
  "item_dict i =
     PDict [(''product_id'', PStr (product_id i)), (''variant_id'', opt_str (variant_id i)),
            (''quantity'', PInt (quantity i)), (''price'', PFloat (price i)),
            (''product_name'', opt_str (product_name i))]"

definition sale_dict :: "SaleCreate \<Rightarrow> pydict" where
  "sale_dict s =
     [(''customer_id'', opt_str (customer_id s)),
      (''items'', PList (map item_dict (items s))),
      (''subtotal'', PFloat (subtotal s)), (''total'', PFloat (total s)),
      (''payment_method'', PStr (payment_method_value (payment_method s))),
      (''cashier_id'', PStr (cashier_id s)),
      (''timestamp'', opt_str (timestamp s)),
      (''status'', PStr (sale_status_value (status s))),
      (''paid_amount'', opt_float (paid_amount s)),
      (''remaining_amount'', opt_float (remaining_amount s))]"

section \<open>The endpoints\<close>

text \<open>
  An endpoint either raises an \<^verbatim>\<open>HTTPException\<close> or reaches its \<^verbatim>\<open>return\<close> with the
  record it hands to the response model. \<open>NotFound\<close>, \<open>InsufficientStock\<close> and \<open>Conflict\<close>
  are the exceptions the endpoints raise themselves; \<open>InternalFailure\<close> is what the
  clause \<^verbatim>\<open>except Exception\<close> makes of any other exception. The response envelope is
  not modelled.
\<close>

datatype api_error = NotFound | InsufficientStock | Conflict | InternalFailure

fun status_code :: "api_error \<Rightarrow> nat" where
  "status_code NotFound = 400"
| "status_code InsufficientStock = 400"
| "status_code Conflict = 400"
| "status_code InternalFailure = 500"

record store =
  products :: table
  customers :: table
  sales :: table

definition dict_get :: "pydict \<Rightarrow> string \<Rightarrow> pyval \<Rightarrow> pyval" where
  "dict_get d k dflt = (case map_of d k of None \<Rightarrow> dflt | Some v \<Rightarrow> v)"

text \<open>The numbers of Python: a bool counts as 0 or 1.\<close>

fun py_num :: "pyval \<Rightarrow> rat option" where
  "py_num (PInt n) = Some (of_int n)"
| "py_num (PBool b) = Some (if b then 1 else 0)"
| "py_num (PFloat r) = Some r"
| "py_num v = None"

text \<open>
  \<^verbatim>\<open>v - n\<close>, \<^verbatim>\<open>v + n\<close> for an int \<open>n\<close> and \<^verbatim>\<open>v + x\<close> for a float \<open>x\<close>: any other left
  operand raises \<^verbatim>\<open>TypeError\<close>.
\<close>

fun py_sub_int :: "pyval \<Rightarrow> int \<Rightarrow> py_error + pyval" where
  "py_sub_int (PInt m) n = Inr (PInt (m - n))"
| "py_sub_int (PBool b) n = Inr (PInt ((if b then 1 else 0) - n))"
| "py_sub_int (PFloat r) n = Inr (PFloat (r - of_int n))"
| "py_sub_int v n = Inl TypeError"

fun py_add_int :: "pyval \<Rightarrow> int \<Rightarrow> py_error + pyval" where
  "py_add_int (PInt m) n = Inr (PInt (m + n))"
| "py_add_int (PBool b) n = Inr (PInt ((if b then 1 else 0) + n))"
| "py_add_int (PFloat r) n = Inr (PFloat (r + of_int n))"
| "py_add_int v n = Inl TypeError"

fun py_add_float :: "pyval \<Rightarrow> rat \<Rightarrow> py_error + pyval" where
  "py_add_float (PInt m) x = Inr (PFloat (of_int m + x))"
| "py_add_float (PBool b) x = Inr (PFloat ((if b then 1 else 0) + x))"
| "py_add_float (PFloat r) x = Inr (PFloat (r + x))"
| "py_add_float v x = Inl TypeError"

subsection \<open>\<^verbatim>\<open>create_product\<close>\<close>

definition create_product ::
  "pylib \<Rightarrow> string \<Rightarrow> table \<Rightarrow> ProductCreate \<Rightarrow> (api_error + pydict) \<times> table" where
  "create_product L uid df product =
     (if (case find_by_sku L df (p_sku product) of
            None \<Rightarrow> False
          | Some existing_product \<Rightarrow> existing_product \<noteq> [])
      then (Inl Conflict, df)
      else
        (case product_create L uid df (product_dict product) of
           (created_product, df') \<Rightarrow> (Inr created_product, df')))"

subsection \<open>\<^verbatim>\<open>create_sale\<close>\<close>

text \<open>
  One turn of the loop over \<^verbatim>\<open>sale.items\<close>: the product is looked up, its stock compared
  with the quantity and the new stock written with its own \<^verbatim>\<open>update\<close>. The result is the
  products table after the turn. An exception of \<^verbatim>\<open>update\<close> is not an \<^verbatim>\<open>HTTPException\<close>:
  the clause \<^verbatim>\<open>except Exception\<close> turns it into the generic failure.
\<close>

definition sell_item :: "pylib \<Rightarrow> table \<Rightarrow> SaleItem \<Rightarrow> api_error + table" where
  "sell_item L df item =
     (case product_find_by_id L df (product_id item) of
        None \<Rightarrow> Inl NotFound
      | Some product \<Rightarrow>
          if product = [] then Inl NotFound
          else
            (let current_stock = dict_get product ''stock'' (PInt 0) in
             case py_num current_stock of
               None \<Rightarrow> Inl InternalFailure
             | Some s \<Rightarrow>
                 if s < of_int (quantity item) then Inl InsufficientStock
                 else
                   (case py_sub_int current_stock (quantity item) of
                      Inl e \<Rightarrow> Inl InternalFailure
                    | Inr new_stock \<Rightarrow>
                        (case product_update L df (product_id item) [(''stock'', new_stock)] of
                           Inl e \<Rightarrow> Inl InternalFailure
                         | Inr (updated, df') \<Rightarrow> Inr df'))))"

text \<open>
  The loop: it stops at the first turn that raises, and the table it leaves is the one
  the earlier turns have written.
\<close>

fun sell_items :: "pylib \<Rightarrow> table \<Rightarrow> SaleItem list \<Rightarrow> api_error option \<times> table" where
  "sell_items L df [] = (None, df)"
| "sell_items L df (item # rest) =
     (case sell_item L df item of
        Inl e \<Rightarrow> (Some e, df)
      | Inr df' \<Rightarrow> sell_items L df' rest)"

text \<open>
  The customer step; \<open>now\<close> is \<^verbatim>\<open>datetime.utcnow().isoformat()\<close>. A missing or empty
  reference and a reference that does not resolve skip the step. The result is the
  customers table after the step, or the exception it raised.
\<close>

definition update_customer_stats ::
  "pylib \<Rightarrow> string \<Rightarrow> table \<Rightarrow> SaleCreate \<Rightarrow> py_error + table" where
  "update_customer_stats L now df sale =
     (case customer_id sale of
        None \<Rightarrow> Inr df
      | Some cid \<Rightarrow>
          if cid = [] then Inr df
          else
            (case customer_find_by_id L df cid of
               None \<Rightarrow> Inr df
             | Some customer \<Rightarrow>
                 if customer = [] then Inr df
                 else
                   bnd (py_add_float (dict_get customer ''total_spent'' (PInt 0)) (total sale))
                     (\<lambda>new_total_spent.
                   bnd (py_add_int (dict_get customer ''visits'' (PInt 0)) 1)
                     (\<lambda>new_visits.
                   bnd (py_add_int (dict_get customer ''loyalty_points'' (PInt 0))
                          (trunc (total sale)))
                     (\<lambda>new_loyalty_points.
                   bnd (customer_update L df cid
                          [(''total_spent'', new_total_spent),
                           (''visits'', new_visits),
                           (''loyalty_points'', new_loyalty_points),
                           (''last_visit'', PStr now)])
                     (\<lambda>updated. Inr (snd updated)))))))"

text \<open>
  \<^verbatim>\<open>create_sale\<close>: the loop, the customer step, the insertion. \<open>now\<^sub>c\<close> and \<open>now\<^sub>s\<close> are
  the clock readings of the customer step and of the insertion. Whatever was written
  before an exception stays written.
\<close>

definition create_sale ::
  "pylib \<Rightarrow> string \<Rightarrow> string \<Rightarrow> string \<Rightarrow> store \<Rightarrow> SaleCreate \<Rightarrow> (api_error + pydict) \<times> store"
  where
  "create_sale L now\<^sub>c now\<^sub>s uid st sale =
     (case sell_items L (products st) (items sale) of
        (Some e, df\<^sub>p) \<Rightarrow> (Inl e, st\<lparr>products := df\<^sub>p\<rparr>)
      | (None, df\<^sub>p) \<Rightarrow>
          (case update_customer_stats L now\<^sub>c (customers st) sale of
             Inl e \<Rightarrow> (Inl InternalFailure, st\<lparr>products := df\<^sub>p\<rparr>)
           | Inr df\<^sub>c \<Rightarrow>
               (case sales_create L now\<^sub>s uid (sales st) (sale_dict sale) of
                  Inl e \<Rightarrow> (Inl InternalFailure, st\<lparr>products := df\<^sub>p, customers := df\<^sub>c\<rparr>)
                | Inr (created_sale, df\<^sub>s) \<Rightarrow>
                    (Inr created_sale,
                     st\<lparr>products := df\<^sub>p, customers := df\<^sub>c, sales := df\<^sub>s\<rparr>))))"

subsection \<open>\<^verbatim>\<open>get_sales_analytics\<close>\<close>

text \<open>
  \<open>cutoff_date\<close> is the text \<^verbatim>\<open>(datetime.utcnow() - timedelta(days=days)).isoformat()\<close>.
  The filter \<^verbatim>\<open>s.get('timestamp', '') >= cutoff_date\<close> compares two strings in
  lexicographic order and raises \<^verbatim>\<open>TypeError\<close> when the timestamp is not a string.
\<close>

fun py_ge_str :: "pyval \<Rightarrow> string \<Rightarrow> py_error + bool" where
  "py_ge_str (PStr t) c = Inr (t \<ge> c)"
| "py_ge_str v c = Inl TypeError"

fun recent :: "string \<Rightarrow> pydict list \<Rightarrow> py_error + pydict list" where
  "recent cutoff_date [] = Inr []"
| "recent cutoff_date (s # ss) =
     bnd (py_ge_str (dict_get s ''timestamp'' (PStr '''')) cutoff_date) (\<lambda>keep.
     bnd (recent cutoff_date ss) (\<lambda>rest. Inr (if keep then s # rest else rest)))"

text \<open>\<^verbatim>\<open>sum(...)\<close> from the accumulator on; a value that is not a number raises.\<close>

fun py_sum :: "rat \<Rightarrow> pyval list \<Rightarrow> py_error + rat" where
  "py_sum acc [] = Inr acc"
| "py_sum acc (v # vs) =
     (case py_num v of None \<Rightarrow> Inl TypeError | Some x \<Rightarrow> py_sum (acc + x) vs)"

text \<open>
  The per-product figures. A dictionary key must be hashable, and two numbers of the same
  value are the same key. Iterating \<^verbatim>\<open>sale.get('items', [])\<close> yields the elements of a
  list, the keys of a dict and the characters of a string; \<^verbatim>\<open>item.get\<close> exists on a
  dict only. With a quantity or a price that is not a number, one of the three statements
  \<^verbatim>\<open>revenue = price * quantity\<close>, \<^verbatim>\<open>["quantity"] += quantity\<close>,
  \<^verbatim>\<open>["revenue"] += revenue\<close> raises \<^verbatim>\<open>TypeError\<close>.
\<close>

record product_figures =
  pf_product_id :: pyval
  pf_name :: pyval
  pf_quantity :: rat
  pf_revenue :: rat

fun hashable :: "pyval \<Rightarrow> bool" where
  "hashable (PList xs) = False"
| "hashable (PDict kvs) = False"
| "hashable v = True"

definition key_eq :: "pyval \<Rightarrow> pyval \<Rightarrow> bool" where
  "key_eq a b =
     (case (py_num a, py_num b) of
        (Some x, Some y) \<Rightarrow> x = y
      | (None, None) \<Rightarrow> a = b
      | _ \<Rightarrow> False)"

fun iter_items :: "pyval \<Rightarrow> py_error + pyval list" where
  "iter_items (PList xs) = Inr xs"
| "iter_items (PDict kvs) = Inr (map (\<lambda>kv. PStr (fst kv)) kvs)"
| "iter_items (PStr s) = Inr (map (\<lambda>c. PStr [c]) s)"
| "iter_items v = Inl TypeError"

fun item_figures :: "pyval \<Rightarrow> py_error + (pyval \<times> rat \<times> rat)" where
  "item_figures (PDict item) =
     (let pid = dict_get item ''product_id'' PNone in
      case (py_num (dict_get item ''quantity'' (PInt 0)),
            py_num (dict_get item ''price'' (PInt 0))) of
        (Some q, Some p) \<Rightarrow> if hashable pid then Inr (pid, q, p * q) else Inl TypeError
      | _ \<Rightarrow> Inl TypeError)"
| "item_figures v = Inl AttributeError"

definition lookup_name :: "pylib \<Rightarrow> table \<Rightarrow> pyval \<Rightarrow> pyval" where
  "lookup_name L df pid =
     (case pid of
        PStr s \<Rightarrow>
          (case product_find_by_id L df s of
             None \<Rightarrow> PStr ''Unknown''
           | Some product \<Rightarrow>
               if product = [] then PStr ''Unknown''
               else dict_get product ''name'' (PStr ''Unknown''))
      | _ \<Rightarrow> PStr ''Unknown'')"

fun add_figures ::
  "pylib \<Rightarrow> table \<Rightarrow> pyval \<times> rat \<times> rat \<Rightarrow> product_figures list \<Rightarrow> product_figures list"
  where
  "add_figures L df (pid, q, r) [] =
     [\<lparr>pf_product_id = pid, pf_name = lookup_name L df pid, pf_quantity = 0 + q,
       pf_revenue = 0 + r\<rparr>]"
| "add_figures L df (pid, q, r) (e # es) =
     (if key_eq (pf_product_id e) pid
      then e\<lparr>pf_name := (if truthy (pf_name e) then pf_name e else lookup_name L df pid),
             pf_quantity := pf_quantity e + q, pf_revenue := pf_revenue e + r\<rparr> # es
      else e # add_figures L df (pid, q, r) es)"

fun items_figures ::
  "pylib \<Rightarrow> table \<Rightarrow> pyval list \<Rightarrow> product_figures list \<Rightarrow> py_error + product_figures list"
  where
  "items_figures L df [] acc = Inr acc"
| "items_figures L df (item # rest) acc =
     bnd (item_figures item) (\<lambda>f. items_figures L df rest (add_figures L df f acc))"

fun product_sales ::
  "pylib \<Rightarrow> table \<Rightarrow> pydict list \<Rightarrow> product_figures list \<Rightarrow> py_error + product_figures list"
  where
  "product_sales L df [] acc = Inr acc"
| "product_sales L df (sale # rest) acc =
     bnd (iter_items (dict_get sale ''items'' (PList []))) (\<lambda>its.
     bnd (items_figures L df its acc) (\<lambda>acc'. product_sales L df rest acc'))"

text \<open>
  \<^verbatim>\<open>sorted(..., key=lambda x: x["revenue"], reverse=True)\<close>: a stable sort, highest
  revenue first.
\<close>

fun insert_desc :: "product_figures \<Rightarrow> product_figures list \<Rightarrow> product_figures list" where
  "insert_desc x [] = [x]"
| "insert_desc x (y # ys) =
     (if pf_revenue y \<ge> pf_revenue x then y # insert_desc x ys else x # y # ys)"

definition sorted_desc :: "product_figures list \<Rightarrow> product_figures list" where
  "sorted_desc xs = foldl (\<lambda>acc x. insert_desc x acc) [] xs"

fun count_key :: "pyval \<Rightarrow> (pyval \<times> nat) list \<Rightarrow> (pyval \<times> nat) list" where
  "count_key k [] = [(k, 1)]"
| "count_key k ((k', n) # rest) =
     (if key_eq k' k then (k', n + 1) # rest else (k', n) # count_key k rest)"

fun counter :: "pyval list \<Rightarrow> (pyval \<times> nat) list \<Rightarrow> py_error + (pyval \<times> nat) list" where
  "counter [] acc = Inr acc"
| "counter (k # ks) acc = (if hashable k then counter ks (count_key k acc) else Inl TypeError)"

text \<open>
  The daily totals: \<^verbatim>\<open>daily_sales[sale.get('timestamp', '')[:10]] += sale.get('total', 0)\<close>
  on a \<^verbatim>\<open>defaultdict(float)\<close>.
\<close>

fun add_to_day :: "string \<Rightarrow> rat \<Rightarrow> (string \<times> rat) list \<Rightarrow> (string \<times> rat) list" where
  "add_to_day d x [] = [(d, 0 + x)]"
| "add_to_day d x ((d', y) # rest) =
     (if d' = d then (d', y + x) # rest else (d', y) # add_to_day d x rest)"

fun daily_sales :: "pydict list \<Rightarrow> (string \<times> rat) list \<Rightarrow> py_error + (string \<times> rat) list" where
  "daily_sales [] acc = Inr acc"
| "daily_sales (sale # rest) acc =
     (case dict_get sale ''timestamp'' (PStr '''') of
        PStr t \<Rightarrow>
          (case py_num (dict_get sale ''total'' (PInt 0)) of
             None \<Rightarrow> Inl TypeError
           | Some x \<Rightarrow> daily_sales rest (add_to_day (take 10 t) x acc))
      | _ \<Rightarrow> Inl TypeError)"

record SalesAnalytics =
  total_sales :: rat
  total_transactions :: nat
  average_order_value :: rat
  top_products :: "product_figures list"
  sales_by_payment_method :: "(pyval \<times> nat) list"
  sales_by_day :: "(string \<times> rat) list"
  revenue_trend :: "(string \<times> rat) list"

definition analytics :: "pylib \<Rightarrow> string \<Rightarrow> store \<Rightarrow> py_error + SalesAnalytics" where
  "analytics L cutoff_date st =
     (let all_sales = sales_get_all L (sales st);
          all_products = product_get_all L (products st)
      in
      bnd (recent cutoff_date all_sales) (\<lambda>recent_sales.
      bnd (py_sum 0 (map (\<lambda>s. dict_get s ''total'' (PInt 0)) recent_sales)) (\<lambda>total_sales.
      bnd (product_sales L (products st) recent_sales []) (\<lambda>figures.
      bnd (counter (map (\<lambda>s. dict_get s ''payment_method'' (PStr ''unknown'')) recent_sales) [])
        (\<lambda>payment_methods.
      bnd (daily_sales recent_sales []) (\<lambda>daily.
        Inr \<lparr>total_sales = total_sales,
             total_transactions = length recent_sales,
             average_order_value =
               (if length recent_sales > 0 then total_sales / of_nat (length recent_sales)
                else 0),
             top_products = take 10 (sorted_desc figures),
             sales_by_payment_method = payment_methods,
             sales_by_day = daily,
             revenue_trend = sort_key fst daily\<rparr>))))))"

definition get_sales_analytics :: "pylib \<Rightarrow> string \<Rightarrow> store \<Rightarrow> api_error + SalesAnalytics" where
  "get_sales_analytics L cutoff_date st =
     (case analytics L cutoff_date st of
        Inl e \<Rightarrow> Inl InternalFailure
      | Inr a \<Rightarrow> Inr a)"

section \<open>A sample of the library functions\<close>

text \<open>
  To run the model on concrete requests, the library parameter needs a value. \<open>sample_lib\<close>
  is a small JSON codec in the output format of \<^verbatim>\<open>json.dumps\<close> (separators \<^verbatim>\<open>', '\<close> and
  \<^verbatim>\<open>': '\<close>), with decimal numbers and the common escapes, and decimal parsers for
  \<^verbatim>\<open>int(s)\<close> and \<^verbatim>\<open>float(s)\<close>. No theorem about the handlers depends on it: it only
  instantiates them.
\<close>

fun digits :: "nat \<Rightarrow> string" where
  "digits n =
     (if n < 10 then [''0123456789'' ! n]
      else digits (n div 10) @ [''0123456789'' ! (n mod 10)])"

definition show_int :: "int \<Rightarrow> string" where
  "show_int i = (if i < 0 then CHR ''-'' # digits (nat (- i)) else digits (nat i))"

fun frac_digits :: "nat \<Rightarrow> nat \<Rightarrow> nat \<Rightarrow> string" where
  "frac_digits fuel r b =
     (if fuel = 0 \<or> r = 0 then []
      else (''0123456789'' ! (r * 10 div b)) # frac_digits (fuel - 1) (r * 10 mod b) b)"

definition show_float :: "rat \<Rightarrow> string" where
  "show_float x =
     (case quotient_of x of (a, b) \<Rightarrow>
        (if a < 0 then ''-'' else '''') @ digits (nat \<bar>a\<bar> div nat b) @ ''.'' @
        (if nat \<bar>a\<bar> mod nat b = 0 then ''0'' else frac_digits 17 (nat \<bar>a\<bar> mod nat b) (nat b)))"

definition escape_char :: "char \<Rightarrow> string" where
  "escape_char c =
     (if c = CHR 0x22 then [CHR 0x5C, CHR 0x22]
      else if c = CHR 0x5C then [CHR 0x5C, CHR 0x5C]
      else if c = CHR 0x0A then [CHR 0x5C, CHR ''n'']
      else if c = CHR 0x0D then [CHR 0x5C, CHR ''r'']
      else if c = CHR 0x09 then [CHR 0x5C, CHR ''t'']
      else [c])"

definition show_str :: "string \<Rightarrow> string" where
  "show_str s = [CHR 0x22] @ concat (map escape_char s) @ [CHR 0x22]"

fun join :: "string \<Rightarrow> string list \<Rightarrow> string" where
  "join sep [] = []"
| "join sep [x] = x"
| "join sep (x # y # ys) = x @ sep @ join sep (y # ys)"

primrec dumps :: "pyval \<Rightarrow> string" where
  "dumps PNone = ''null''"
| "dumps (PBool b) = (if b then ''true'' else ''false'')"
| "dumps (PInt n) = show_int n"
| "dumps (PFloat x) = show_float x"
| "dumps (PStr s) = show_str s"
| "dumps (PList xs) = ''['' @ join '', '' (map dumps xs) @ '']''"
| "dumps (PDict kvs) =
     ''{'' @ join '', '' (map (\<lambda>kv. show_str (fst kv) @ '': '' @ snd kv) (map (map_prod id dumps) kvs))
       @ ''}''"

definition is_ws :: "char \<Rightarrow> bool" where
  "is_ws c = (c \<in> set [CHR 0x20, CHR 0x09, CHR 0x0A, CHR 0x0D])"

definition skip_ws :: "string \<Rightarrow> string" where
  "skip_ws s = dropWhile is_ws s"

definition is_digit :: "char \<Rightarrow> bool" where
  "is_digit c = (c \<in> set ''0123456789'')"

definition digit_val :: "char \<Rightarrow> nat" where
  "digit_val c = length (takeWhile (\<lambda>d. d \<noteq> c) ''0123456789'')"

definition nat_of_digits :: "string \<Rightarrow> nat" where
  "nat_of_digits ds = foldl (\<lambda>acc c. acc * 10 + digit_val c) 0 ds"

definition parse_number :: "string \<Rightarrow> (pyval \<times> string) option" where
  "parse_number s =
     (let neg = (take 1 s = ''-'');
          s1 = (if neg then drop 1 s else s);
          ip = takeWhile is_digit s1;
          s2 = dropWhile is_digit s1
      in if ip = [] then None
         else if take 1 s2 = ''.'' then
           (let fp = takeWhile is_digit (drop 1 s2);
                s3 = dropWhile is_digit (drop 1 s2)
            in if fp = [] then None
               else Some (PFloat ((if neg then - 1 else 1) *
                            (of_nat (nat_of_digits ip) +
                             of_nat (nat_of_digits fp) / 10 ^ length fp)), s3))
         else Some (PInt ((if neg then - 1 else 1) * int (nat_of_digits ip)), s2))"

definition unescape :: "char \<Rightarrow> char option" where
  "unescape e =
     map_of [(CHR 0x22, CHR 0x22), (CHR 0x5C, CHR 0x5C), (CHR ''/'', CHR ''/''),
             (CHR ''n'', CHR 0x0A), (CHR ''r'', CHR 0x0D), (CHR ''t'', CHR 0x09),
             (CHR ''b'', CHR 0x08), (CHR ''f'', CHR 0x0C)] e"

fun parse_chars :: "string \<Rightarrow> (string \<times> string) option" where
  "parse_chars [] = None"
| "parse_chars [c] = (if c = CHR 0x22 then Some ([], []) else None)"
| "parse_chars (c # e # r) =
     (if c = CHR 0x22 then Some ([], e # r)
      else if c = CHR 0x5C then
        (case unescape e of
           None \<Rightarrow> None
         | Some d \<Rightarrow> map_option (apfst ((#) d)) (parse_chars r))
      else map_option (apfst ((#) c)) (parse_chars (e # r)))"

fun parse_value :: "nat \<Rightarrow> string \<Rightarrow> (pyval \<times> string) option"
  and parse_elems :: "nat \<Rightarrow> string \<Rightarrow> (pyval list \<times> string) option"
  and parse_members :: "nat \<Rightarrow> string \<Rightarrow> ((string \<times> pyval) list \<times> string) option"
  where
  "parse_value fuel s =
     (if fuel = 0 then None
      else
        (case skip_ws s of
           [] \<Rightarrow> None
         | c # r \<Rightarrow>
             if c = CHR ''['' then
               (if take 1 (skip_ws r) = '']'' then Some (PList [], drop 1 (skip_ws r))
                else map_option (apfst PList) (parse_elems (fuel - 1) r))
             else if c = CHR ''{'' then
               (if take 1 (skip_ws r) = ''}'' then Some (PDict [], drop 1 (skip_ws r))
                else map_option
                       (apfst (\<lambda>kvs. PDict (foldl (\<lambda>d kv. AList.update (fst kv) (snd kv) d) [] kvs)))
                       (parse_members (fuel - 1) r))
             else if c = CHR 0x22 then map_option (apfst PStr) (parse_chars r)
             else if take 4 (c # r) = ''null'' then Some (PNone, drop 4 (c # r))
             else if take 4 (c # r) = ''true'' then Some (PBool True, drop 4 (c # r))
             else if take 5 (c # r) = ''false'' then Some (PBool False, drop 5 (c # r))
             else parse_number (c # r)))"
| "parse_elems fuel s =
     (if fuel = 0 then None
      else
        (case parse_value (fuel - 1) s of
           None \<Rightarrow> None
         | Some (v, r) \<Rightarrow>
             if take 1 (skip_ws r) = '']'' then Some ([v], drop 1 (skip_ws r))
             else if take 1 (skip_ws r) = '','' then
               map_option (apfst ((#) v)) (parse_elems (fuel - 1) (drop 1 (skip_ws r)))
             else None))"
| "parse_members fuel s =
     (if fuel = 0 then None
      else if take 1 (skip_ws s) \<noteq> [CHR 0x22] then None
      else
        (case parse_chars (drop 1 (skip_ws s)) of
           None \<Rightarrow> None
         | Some (k, r1) \<Rightarrow>
             if take 1 (skip_ws r1) \<noteq> '':'' then None
             else
               (case parse_value (fuel - 1) (drop 1 (skip_ws r1)) of
                  None \<Rightarrow> None
                | Some (v, r2) \<Rightarrow>
                    if take 1 (skip_ws r2) = ''}'' then Some ([(k, v)], drop 1 (skip_ws r2))
                    else if take 1 (skip_ws r2) = '','' then
                      map_option (apfst ((#) (k, v)))
                        (parse_members (fuel - 1) (drop 1 (skip_ws r2)))
                    else None)))"

definition loads :: "string \<Rightarrow> pyval option" where
  "loads s =
     (case parse_value (2 * length s + 2) s of
        None \<Rightarrow> None
      | Some (v, r) \<Rightarrow> if skip_ws r = [] then Some v else None)"

definition sample_lib :: pylib where
  "sample_lib =
     \<lparr>json_dumps = dumps, json_loads = loads,
      int_of_str = (\<lambda>s. case parse_number s of Some (PInt n, []) \<Rightarrow> Some n | _ \<Rightarrow> None),
      float_of_str = (\<lambda>s. case parse_number s of
                             Some (PInt n, []) \<Rightarrow> Some (of_int n)
                           | Some (PFloat x, []) \<Rightarrow> Some x
                           | _ \<Rightarrow> None),
      repr_of = (\<lambda>v. case v of PNone \<Rightarrow> ''None'' | PBool b \<Rightarrow> (if b then ''True'' else ''False'')
                       | _ \<Rightarrow> dumps v)\<rparr>"

section \<open>A sample shop\<close>

text \<open>
  Two products, one customer who has not bought anything yet and no sale; \<open>line\<close> and
  \<open>order\<close> build a line item and a cash sale request; \<open>shawl\<close> is a request for a new
  product with one variant.
\<close>

definition shop :: store where
  "shop =
     \<lparr>products =
        [[(''id'', PStr ''p1''), (''name'', PStr ''Scarf''), (''category'', PStr ''Accessories''),
          (''price'', PFloat 20), (''cost'', PFloat 8), (''stock'', PInt 5),
          (''sku'', PStr ''SC-1''), (''description'', PStr ''''), (''image'', PStr ''''),
          (''variants'', PStr ''[]'')],
         [(''id'', PStr ''p2''), (''name'', PStr ''Hat''), (''category'', PStr ''Accessories''),
          (''price'', PFloat 15), (''cost'', PFloat 6), (''stock'', PInt 2),
          (''sku'', PStr ''HT-1''), (''description'', PStr ''''), (''image'', PStr ''''),
          (''variants'', PStr ''[]'')]],
      customers =
        [[(''id'', PStr ''c1''), (''first_name'', PStr ''Ada''), (''last_name'', PStr ''Lee''),
          (''email'', PStr ''''), (''loyalty_points'', PInt 0), (''total_spent'', PFloat 0),
          (''visits'', PInt 0), (''last_visit'', PStr ''''), (''preferences'', PStr '''')]],
      sales = []\<rparr>"

text \<open>
  \<open>stockroom\<close> is a small products table. \<open>text_stock\<close> is the shop after its stock column
  has been loaded as text, as it is when one cell of the column is empty. \<open>flagged\<close> is a
  products table of one product whose \<^verbatim>\<open>variants\<close> cell reads \<^verbatim>\<open>True\<close> in the file, so
  that the column is loaded as \<^verbatim>\<open>bool\<close>. \<open>ledger\<close> is the shop with three sales: one inside
  a 30-day window that ends on 4 November 2026, one before it and one dated after it.
\<close>

definition stockroom :: table where
  "stockroom =
     [[(''id'', PStr ''p1''), (''name'', PStr ''Scarf''), (''stock'', PInt 5)],
      [(''id'', PStr ''p2''), (''name'', PStr ''Hat''), (''stock'', PInt 2)]]"


definition flagged :: table where
  "flagged =
     [[(''id'', PStr ''p1''), (''name'', PStr ''Scarf''), (''category'', PStr ''Accessories''),
       (''price'', PFloat 20), (''cost'', PFloat 8), (''stock'', PInt 5),
       (''sku'', PStr ''SC-1''), (''description'', PStr ''''), (''image'', PStr ''''),
       (''variants'', PBool True)]]"

definition ledger :: store where
  "ledger =
     shop\<lparr>sales :=
        [[(''id'', PStr ''s1''), (''items'', PStr ''[]''), (''total'', PFloat 30),
          (''payment_method'', PStr ''cash''), (''timestamp'', PStr ''2026-10-20T09:00:00'')],
         [(''id'', PStr ''s2''), (''items'', PStr ''[]''), (''total'', PFloat 50),
          (''payment_method'', PStr ''cash''), (''timestamp'', PStr ''2026-09-01T12:00:00'')],
         [(''id'', PStr ''s3''), (''items'', PStr ''[]''), (''total'', PFloat 10),
          (''payment_method'', PStr ''credit_card''),
          (''timestamp'', PStr ''2099-01-01T00:00:00'')]]\<rparr>"

definition line :: "string \<Rightarrow> int \<Rightarrow> rat \<Rightarrow> SaleItem" where
  "line pid q pr =
     \<lparr>product_id = pid, variant_id = None, quantity = q, price = pr, product_name = None\<rparr>"

definition order :: "SaleItem list \<Rightarrow> rat \<Rightarrow> rat option \<Rightarrow> string option \<Rightarrow> SaleCreate" where
  "order its tot paid cust =
     \<lparr>customer_id = cust, items = its, subtotal = tot, total = tot, payment_method = CASH,
      cashier_id = ''u1'', timestamp = None, status = COMPLETED, paid_amount = paid,
      remaining_amount = None\<rparr>"

definition shawl :: ProductCreate where
  "shawl =
     \<lparr>p_name = ''Shawl'', p_category = ''Accessories'', p_price = 45, p_cost = 20,
      p_stock = 7, p_sku = ''SH-1'', p_description = None, p_image = None,
      p_variants =
        [\<lparr>v_id = ''v1'', v_size = ''M'', v_color = ''red'', v_stock = 3, v_sku = ''SH-1-M''\<rparr>]\<rparr>"

section \<open>Notions of the statements\<close>

text \<open>
  \<open>current_stock\<close> is the value \<^verbatim>\<open>create_sale\<close> reads as a product's stock:
  \<^verbatim>\<open>products_db.find_by_id(pid).get('stock', 0)\<close>, or nothing when the product is absent.
\<close>

definition current_stock :: "pylib \<Rightarrow> table \<Rightarrow> string \<Rightarrow> pyval option" where
  "current_stock L df pid =
     (case product_find_by_id L df pid of
        None \<Rightarrow> None
      | Some product \<Rightarrow> Some (dict_get product ''stock'' (PInt 0)))"

text \<open>
  \<open>set_fields data row\<close> is the row with the fields of a payload written into it, the
  field \<^verbatim>\<open>id\<close> apart. A value is of a column's own kind (\<open>takes\<close>) when the column stores
  it as it is and keeps its type; a payload \<open>fits\<close> a table when each of its fields other
  than \<^verbatim>\<open>id\<close> is a column of the table and its value is of that column's kind.
\<close>

fun set_fields :: "pydict \<Rightarrow> pydict \<Rightarrow> pydict" where
  "set_fields [] row = row"
| "set_fields ((key, v) # rest) row =
     set_fields rest (if key \<noteq> ''id'' then AList.update key v row else row)"

fun takes :: "dtype \<Rightarrow> pyval \<Rightarrow> bool" where
  "takes d (PList xs) = False"
| "takes d (PDict kvs) = False"
| "takes Object v = True"
| "takes Int64 (PInt n) = in_int64 n"
| "takes Float64 (PFloat x) = True"
| "takes Float64 PNone = True"
| "takes Bool (PBool b) = True"
| "takes Str (PStr s) = True"
| "takes Str PNone = True"
| "takes d v = False"

definition fits :: "table \<Rightarrow> pydict \<Rightarrow> bool" where
  "fits df data =
     list_all (\<lambda>(key, v). key = ''id'' \<or>
                 (has_column df key \<and> takes (dtype_of (column df key)) v)) data"

text \<open>
  \<open>customer_stats\<close> is the payload of the customer step of \<^verbatim>\<open>create_sale\<close> for a customer
  whose record reads \<open>x\<close> spent, \<open>v\<close> visits and \<open>p\<close> points. \<open>stored_sale\<close> holds of the row
  that \<^verbatim>\<open>create_sale\<close> has to store for a request: the key is the fresh one, the customer
  reference, the totals, the payment method, the cashier and the timestamp are those of
  the request (\<^verbatim>\<open>None\<close> for a timestamp or a customer the request does not give: the
  dictionary of the request has the key \<^verbatim>\<open>timestamp\<close> in any case, so the handler adds
  none), and the line items are its items as JSON text.
\<close>

definition customer_stats :: "rat \<Rightarrow> int \<Rightarrow> int \<Rightarrow> SaleCreate \<Rightarrow> string \<Rightarrow> pydict" where
  "customer_stats x v p sale now =
     [(''total_spent'', PFloat (x + total sale)),
      (''visits'', PInt (v + 1)),
      (''loyalty_points'', PInt (p + trunc (total sale))),
      (''last_visit'', PStr now)]"

definition stored_sale :: "pylib \<Rightarrow> string \<Rightarrow> SaleCreate \<Rightarrow> pydict \<Rightarrow> bool" where
  "stored_sale L uid sale row =
     (map_of row ''id'' = Some (PStr uid) \<and>
      map_of row ''customer_id'' = Some (opt_str (customer_id sale)) \<and>
      map_of row ''items'' = Some (PStr (json_dumps L (PList (map item_dict (items sale))))) \<and>
      map_of row ''subtotal'' = Some (PFloat (subtotal sale)) \<and>
      map_of row ''total'' = Some (PFloat (total sale)) \<and>
      map_of row ''payment_method'' = Some (PStr (payment_method_value (payment_method sale))) \<and>
      map_of row ''cashier_id'' = Some (PStr (cashier_id sale)) \<and>
      map_of row ''timestamp'' = Some (opt_str (timestamp sale)))"

text \<open>
  The notions of the analytics statements: the timestamp and the total of a sale record as
  the aggregator reads them, the filter it applies (\<open>since\<close>: the timestamp is text and not
  below the cutoff text), the window a caller means (\<open>in_window\<close>: from the cutoff to now),
  the day of a sale, the revenue of a day, and the records on which the aggregator
  raises nothing (\<open>wf_sale\<close>).
\<close>

definition sale_timestamp :: "pydict \<Rightarrow> pyval" where
  "sale_timestamp s = dict_get s ''timestamp'' (PStr '''')"

definition sale_total :: "pydict \<Rightarrow> rat" where
  "sale_total s = (case py_num (dict_get s ''total'' (PInt 0)) of None \<Rightarrow> 0 | Some x \<Rightarrow> x)"

definition since :: "string \<Rightarrow> pydict \<Rightarrow> bool" where
  "since cutoff_date s = (case sale_timestamp s of PStr t \<Rightarrow> cutoff_date \<le> t | _ \<Rightarrow> False)"

definition in_window :: "string \<Rightarrow> string \<Rightarrow> pydict \<Rightarrow> bool" where
  "in_window cutoff_date now s =
     (case sale_timestamp s of PStr t \<Rightarrow> cutoff_date \<le> t \<and> t \<le> now | _ \<Rightarrow> False)"

definition sale_day :: "pydict \<Rightarrow> string" where
  "sale_day s = (case sale_timestamp s of PStr t \<Rightarrow> take 10 t | _ \<Rightarrow> [])"

definition day_revenue :: "pydict list \<Rightarrow> string \<Rightarrow> rat" where
  "day_revenue R d = sum_list (map sale_total (filter (\<lambda>s. sale_day s = d) R))"

definition day_total :: "(string \<times> rat) list \<Rightarrow> string \<Rightarrow> rat" where
  "day_total m d = (case map_of m d of None \<Rightarrow> 0 | Some y \<Rightarrow> y)"

fun wf_item :: "pyval \<Rightarrow> bool" where
  "wf_item (PDict item) =
     (py_num (dict_get item ''quantity'' (PInt 0)) \<noteq> None \<and>
      py_num (dict_get item ''price'' (PInt 0)) \<noteq> None \<and>
      hashable (dict_get item ''product_id'' PNone))"
| "wf_item v = False"

definition wf_sale :: "pydict \<Rightarrow> bool" where
  "wf_sale s =
     ((case sale_timestamp s of PStr t \<Rightarrow> True | _ \<Rightarrow> False) \<and>
      py_num (dict_get s ''total'' (PInt 0)) \<noteq> None \<and>
      hashable (dict_get s ''payment_method'' (PStr ''unknown'')) \<and>
      (case dict_get s ''items'' (PList []) of PList its \<Rightarrow> list_all wf_item its | _ \<Rightarrow> False))"

section \<open>Running the model\<close>

text \<open>
  Concrete calls are evaluated by the simplifier with the definitions below. The weak
  congruence rules make it evaluate the scrutinee of a \<^theory_text>\<open>case\<close>, the bound value
  of a \<^theory_text>\<open>let\<close> and the first argument of \<open>bnd\<close> before it enters the branches.
\<close>

lemma Let_weak_cong: "s = t \<Longrightarrow> Let s f = Let t f"
  by simp

lemma bnd_weak_cong: "m = n \<Longrightarrow> bnd m f = bnd n f"
  by simp

lemmas eval_cong =
  if_weak_cong Let_weak_cong bnd_weak_cong sum.case_cong_weak option.case_cong_weak
  prod.case_cong_weak list.case_cong_weak pyval.case_cong_weak

lemma sample_lib_fields:
  "json_dumps sample_lib = dumps"
  "json_loads sample_lib = loads"
  "int_of_str sample_lib s = (case parse_number s of Some (PInt n, []) \<Rightarrow> Some n | _ \<Rightarrow> None)"
  "float_of_str sample_lib s =
     (case parse_number s of
        Some (PInt n, []) \<Rightarrow> Some (of_int n)
      | Some (PFloat x, []) \<Rightarrow> Some x
      | _ \<Rightarrow> None)"
  "repr_of sample_lib v =
     (case v of PNone \<Rightarrow> ''None'' | PBool b \<Rightarrow> (if b then ''True'' else ''False'')
      | _ \<Rightarrow> dumps v)"
  by (simp_all add: sample_lib_def)

lemmas eval_base =
  trunc_def ascii_lower_def in_int64_def column_def has_column_def dtype_of_def as_float_def
  assign_def id_is_def find_by_id_def create_def update_def delete_def
  force_str_def float_unless_none_def int_unless_none_def float_or_zero_def int_or_zero_def
  decode_field_def product_default_def process_product_record_def encode_variants_def
  product_create_def product_update_def product_find_by_id_def find_by_sku_def
  product_get_all_def customer_default_def process_customer_record_def
  encode_preferences_def customer_update_def customer_find_by_id_def sale_default_def
  process_sale_record_def encode_items_def payment_status_def
  sales_get_all_def opt_str_def opt_float_def variant_dict_def product_dict_def
  item_dict_def sale_dict_def dict_get_def create_product_def sell_item_def
  update_customer_stats_def current_stock_def
  show_int_def show_float_def escape_char_def show_str_def is_ws_def skip_ws_def
  is_digit_def digit_val_def nat_of_digits_def parse_number_def unescape_def loads_def
  sample_lib_fields Let_def

lemmas eval_defs = eval_base sales_create_def create_sale_def

lemmas eval_analytics =
  get_sales_analytics_def analytics_def key_eq_def lookup_name_def sorted_desc_def
  sale_timestamp_def sale_total_def since_def sale_day_def day_revenue_def in_window_def
  wf_sale_def

section \<open>The record store: update and delete\<close>

lemma map_of_set_fields:
  "map_of (set_fields data row) k =
     (if k \<noteq> ''id'' \<and> k \<in> fst ` set data then map_of (rev data) k else map_of row k)"
proof (induction data arbitrary: row)
  case Nil
  then show ?case by simp
next
  case (Cons p rest)
  obtain key v where p: "p = (key, v)" by (cases p)
  have in_rest: "k \<in> fst ` set rest \<longleftrightarrow> map_of (rev rest) k \<noteq> None"
    by (simp add: map_of_eq_None_iff)
  show ?case
    unfolding p using Cons.IH in_rest
    by (auto simp: map_add_def update_conv' split: option.splits)
qed

lemma map_of_rev_distinct: "distinct (map fst xs) \<Longrightarrow> map_of (rev xs) = map_of xs"
  by (rule map_of_inject_set [THEN iffD2]) (simp_all add: distinct_rev rev_map [symmetric])

lemma id_is_set_fields: "id_is rid (set_fields data row) = id_is rid row"
  by (simp add: id_is_def map_of_set_fields)

lemma id_is_update: "key \<noteq> ''id'' \<Longrightarrow> id_is rid (AList.update key v row) = id_is rid row"
  by (simp add: id_is_def update_conv')

lemma find_map_keep:
  "(\<And>x. P (f x) = P x) \<Longrightarrow> find P (map f xs) = map_option f (find P xs)"
  by (induction xs) auto

lemma find_Some_holds: "find P xs = Some x \<Longrightarrow> P x"
  by (induction xs) (auto split: if_splits)

lemma takes_coerce: "takes d v \<Longrightarrow> coerce d v = Inr v"
  by (cases d; cases v) simp_all

lemma takes_keeps_type: "takes d v \<Longrightarrow> \<not> (d = Int64 \<and> v = PNone)"
  by (cases d; cases v) simp_all

lemma assign_fits:
  assumes "has_column df key" and "takes (dtype_of (column df key)) v"
  shows "assign rid key v df =
           Inr (map (\<lambda>row. if id_is rid row then AList.update key v row else row) df)"
  using assms takes_keeps_type [OF assms(2)]
  by (auto simp: assign_def Let_def takes_coerce)

lemma column_other:
  "k \<noteq> key \<Longrightarrow>
     column (map (\<lambda>row. if P row then AList.update key v row else row) df) k = column df k"
  by (simp add: column_def update_conv')

lemma has_column_other:
  "k \<noteq> key \<Longrightarrow>
     has_column (map (\<lambda>row. if P row then AList.update key v row else row) df) k =
     has_column df k"
  by (induction df) (auto simp: has_column_def update_conv')

lemma fits_other:
  assumes "fits df rest" and "key \<notin> fst ` set rest"
  shows "fits (map (\<lambda>row. if P row then AList.update key v row else row) df) rest"
proof -
  have "\<And>k w. (k, w) \<in> set rest \<Longrightarrow> k \<noteq> key" using assms(2) by force
  with assms(1) show ?thesis
    by (auto simp: fits_def list_all_iff column_other has_column_other)
qed

lemma assign_all_fits:
  "distinct (map fst data) \<Longrightarrow> fits df data \<Longrightarrow>
     assign_all rid data df =
       Inr (map (\<lambda>row. if id_is rid row then set_fields data row else row) df)"
proof (induction data arbitrary: df)
  case Nil
  then show ?case by (simp add: map_idI)
next
  case (Cons p rest)
  obtain key v where p: "p = (key, v)" by (cases p)
  from Cons.prems have dist: "distinct (map fst rest)" and fresh: "key \<notin> fst ` set rest"
    and rest: "fits df rest"
    by (auto simp: p fits_def)
  show ?case
  proof (cases "key = ''id''")
    case True
    with Cons.IH [OF dist rest] show ?thesis by (simp add: p)
  next
    case False
    let ?df1 = "map (\<lambda>row. if id_is rid row then AList.update key v row else row) df"
    from Cons.prems False have "has_column df key" "takes (dtype_of (column df key)) v"
      by (auto simp: p fits_def)
    then have a: "assign rid key v df = Inr ?df1" by (rule assign_fits)
    have "fits ?df1 rest" using rest fresh by (rule fits_other)
    from Cons.IH [OF dist this]
    have "assign_all rid rest ?df1 =
            Inr (map (\<lambda>row. if id_is rid row then set_fields rest row else row) ?df1)" .
    with a False show ?thesis
      by (simp add: p id_is_update comp_def cong: if_cong)
  qed
qed

lemma update_none: "\<not> list_ex (id_is rid) df \<Longrightarrow> update df rid data = Inr (None, df)"
  by (simp add: update_def)

lemma update_fits:
  assumes ex: "list_ex (id_is rid) df" and dist: "distinct (map fst data)" and fit: "fits df data"
  shows "update df rid data =
           Inr (map_option (set_fields data) (find (id_is rid) df),
                map (\<lambda>row. if id_is rid row then set_fields data row else row) df)"
proof -
  let ?f = "\<lambda>row. if id_is rid row then set_fields data row else row"
  from ex have ne: "df \<noteq> []" by auto
  have keep: "\<And>row. id_is rid (?f row) = id_is rid row"
    by (simp add: id_is_set_fields)
  have "find (id_is rid) (map ?f df) = map_option ?f (find (id_is rid) df)"
    by (rule find_map_keep) (rule keep)
  also have "\<dots> = map_option (set_fields data) (find (id_is rid) df)"
    by (cases "find (id_is rid) df") (auto dest: find_Some_holds)
  finally show ?thesis
    using ex ne by (simp add: update_def assign_all_fits [OF dist fit])
qed

lemma update_rows:
  assumes ex: "list_ex (id_is rid) df" and dist: "distinct (map fst data)" and fit: "fits df data"
  shows "\<exists>r df'. update df rid data = Inr (r, df') \<and>
           length df' = length df \<and>
           r = find (id_is rid) df' \<and> r \<noteq> None \<and>
           (\<forall>i<length df.
              (if id_is rid (df ! i)
               then \<forall>k. map_of (df' ! i) k =
                      (if k \<noteq> ''id'' \<and> k \<in> fst ` set data then map_of data k
                       else map_of (df ! i) k)
               else df' ! i = df ! i))"
proof -
  let ?f = "\<lambda>row. if id_is rid row then set_fields data row else row"
  note upd = update_fits [OF ex dist fit]
  have keep: "\<And>row. id_is rid (?f row) = id_is rid row"
    by (simp add: id_is_set_fields)
  have fm: "find (id_is rid) (map ?f df) = map_option ?f (find (id_is rid) df)"
    by (rule find_map_keep) (rule keep)
  have same: "map_option ?f (find (id_is rid) df) =
                map_option (set_fields data) (find (id_is rid) df)"
    by (cases "find (id_is rid) df") (auto dest: find_Some_holds)
  have some: "find (id_is rid) df \<noteq> None"
    using ex by (auto simp: find_None_iff list_ex_iff)
  from dist have rd: "map_of (rev data) = map_of data" by (simp add: map_of_rev_distinct)
  show ?thesis
    unfolding upd using some
    by (intro exI [of _ "map_option (set_fields data) (find (id_is rid) df)"]
          exI [of _ "map ?f df"])
       (simp add: fm same map_of_set_fields rd)
qed

text \<open>
  Claim C5. \<^verbatim>\<open>CSVHandler.update\<close> with a key no row has returns \<^verbatim>\<open>None\<close> and leaves the
  table as it is, whatever the payload. With a key some row has and a payload that fits
  the table (its fields other than \<^verbatim>\<open>id\<close> are columns of the table and each value is of
  its column's kind; the fields are distinct, as the keys of a dictionary are) it
  overwrites exactly the listed fields: the table keeps its length, the first row of the
  key is returned, every row of another key is unchanged, and in a row of the key a field
  reads the payload's value when the payload names it and it is not \<^verbatim>\<open>id\<close>, and its prior
  value otherwise; so \<^verbatim>\<open>id\<close> keeps its value even when the payload names it.
\<close>

theorem update_frame:
  "(\<not> list_ex (id_is rid) df \<longrightarrow> update df rid data = Inr (None, df)) \<and>
   (list_ex (id_is rid) df \<and> distinct (map fst data) \<and> fits df data \<longrightarrow>
      (\<exists>r df'. update df rid data = Inr (r, df') \<and>
         length df' = length df \<and>
         r = find (id_is rid) df' \<and> r \<noteq> None \<and>
         (\<forall>i<length df.
            (if id_is rid (df ! i)
             then \<forall>k. map_of (df' ! i) k =
                    (if k \<noteq> ''id'' \<and> k \<in> fst ` set data then map_of data k
                     else map_of (df ! i) k)
             else df' ! i = df ! i))))"
  using update_none [of rid df data] update_rows [of rid df data] by blast

theorem update_frame_witness:
  "\<not> list_ex (id_is ''p9'') stockroom \<and>
   update stockroom ''p9'' [(''id'', PStr ''zz''), (''stock'', PInt 3)] = Inr (None, stockroom) \<and>
   list_ex (id_is ''p1'') stockroom \<and>
   distinct (map fst [(''id'', PStr ''zz''), (''stock'', PInt 3), (''name'', PStr ''Shawl'')]) \<and>
   fits stockroom [(''id'', PStr ''zz''), (''stock'', PInt 3), (''name'', PStr ''Shawl'')] \<and>
   update stockroom ''p1'' [(''id'', PStr ''zz''), (''stock'', PInt 3), (''name'', PStr ''Shawl'')] =
     Inr (Some [(''id'', PStr ''p1''), (''name'', PStr ''Shawl''), (''stock'', PInt 3)],
          [[(''id'', PStr ''p1''), (''name'', PStr ''Shawl''), (''stock'', PInt 3)],
           [(''id'', PStr ''p2''), (''name'', PStr ''Hat''), (''stock'', PInt 2)]])"
proof -
  have h1: "\<not> list_ex (id_is ''p9'') stockroom"
    and h2: "list_ex (id_is ''p1'') stockroom"
    and h3: "distinct (map fst [(''id'', PStr ''zz''), (''stock'', PInt 3), (''name'', PStr ''Shawl'')])"
    and h4: "fits stockroom [(''id'', PStr ''zz''), (''stock'', PInt 3), (''name'', PStr ''Shawl'')]"
    by (simp_all add: eval_base fits_def stockroom_def)
  note T9 = update_frame
    [where rid = "''p9''" and df = stockroom
       and data = "[(''id'', PStr ''zz''), (''stock'', PInt 3)]"]
  note T1 = update_frame
    [where rid = "''p1''" and df = stockroom
       and data = "[(''id'', PStr ''zz''), (''stock'', PInt 3), (''name'', PStr ''Shawl'')]"]
  from T9 h1
  have r9: "update stockroom ''p9'' [(''id'', PStr ''zz''), (''stock'', PInt 3)] =
              Inr (None, stockroom)"
    by blast
  from T1 h2 h3 h4
  have "\<exists>r df'. update stockroom ''p1''
                  [(''id'', PStr ''zz''), (''stock'', PInt 3), (''name'', PStr ''Shawl'')] =
                Inr (r, df')"
    by blast
  then have r1: "update stockroom ''p1''
                   [(''id'', PStr ''zz''), (''stock'', PInt 3), (''name'', PStr ''Shawl'')] =
     Inr (Some [(''id'', PStr ''p1''), (''name'', PStr ''Shawl''), (''stock'', PInt 3)],
          [[(''id'', PStr ''p1''), (''name'', PStr ''Shawl''), (''stock'', PInt 3)],
           [(''id'', PStr ''p2''), (''name'', PStr ''Hat''), (''stock'', PInt 2)]])"
    by (simp add: eval_base stockroom_def cong: eval_cong)
  show ?thesis by (intro conjI h1 r9 h2 h3 h4 r1)
qed

text \<open>
  For a payload that does not fit, the claim fails. On the table \<open>stockroom\<close>, \<^verbatim>\<open>None\<close>
  for the stock of the first product makes the stock column \<^verbatim>\<open>float64\<close>, and the stock of
  the second product, which the call does not name, changes from the integer 2 to the
  float 2.0. Text for the stock raises \<^verbatim>\<open>TypeError\<close>, and so does an integer beyond 64
  bits: the call returns neither a row nor \<^verbatim>\<open>None\<close>. A field that is no column yet adds a
  cell to every row.
\<close>

theorem update_retypes_column:
  "update stockroom ''p1'' [(''stock'', PNone)] =
     Inr (Some [(''id'', PStr ''p1''), (''name'', PStr ''Scarf''), (''stock'', PNone)],
          [[(''id'', PStr ''p1''), (''name'', PStr ''Scarf''), (''stock'', PNone)],
           [(''id'', PStr ''p2''), (''name'', PStr ''Hat''), (''stock'', PFloat 2)]]) \<and>
   update stockroom ''p1'' [(''stock'', PStr ''many'')] = Inl TypeError \<and>
   update stockroom ''p1'' [(''stock'', PInt 10000000000000000000)] = Inl TypeError \<and>
   update stockroom ''p1'' [(''colour'', PStr ''red'')] =
     Inr (Some [(''id'', PStr ''p1''), (''name'', PStr ''Scarf''), (''stock'', PInt 5),
                (''colour'', PStr ''red'')],
          [[(''id'', PStr ''p1''), (''name'', PStr ''Scarf''), (''stock'', PInt 5),
            (''colour'', PStr ''red'')],
           [(''id'', PStr ''p2''), (''name'', PStr ''Hat''), (''stock'', PInt 2),
            (''colour'', PNone)]])"
  by (simp add: eval_base stockroom_def cong: eval_cong)

text \<open>
  Claim C8. \<^verbatim>\<open>CSVHandler.delete\<close> on a key no row has returns \<^verbatim>\<open>False\<close> and the table
  as it was, nothing is raised, and a second call gives the same; on a key some row has
  it returns \<^verbatim>\<open>True\<close> and the table without every row of that key (the other rows stay,
  in their order), so no row of the key is left.
\<close>

theorem delete_spec:
  "(\<not> list_ex (id_is rid) df \<longrightarrow>
      delete df rid = (False, df) \<and> delete (snd (delete df rid)) rid = (False, df)) \<and>
   (list_ex (id_is rid) df \<longrightarrow>
      delete df rid = (True, filter (\<lambda>row. \<not> id_is rid row) df) \<and>
      \<not> list_ex (id_is rid) (snd (delete df rid)))"
proof (intro conjI impI)
  assume no: "\<not> list_ex (id_is rid) df"
  then have "filter (\<lambda>row. \<not> id_is rid row) df = df"
    by (simp add: list_ex_iff filter_id_conv)
  then show a: "delete df rid = (False, df)" by (simp add: delete_def Let_def)
  then show "delete (snd (delete df rid)) rid = (False, df)" by simp
next
  assume ex: "list_ex (id_is rid) df"
  then have ne: "df \<noteq> []" by auto
  have "length (filter (\<lambda>row. \<not> id_is rid row) df) < length df"
    using ex by (auto simp: list_ex_iff intro: length_filter_less)
  then show d: "delete df rid = (True, filter (\<lambda>row. \<not> id_is rid row) df)"
    using ne by (simp add: delete_def Let_def)
  show "\<not> list_ex (id_is rid) (snd (delete df rid))"
    unfolding d by (simp add: list_ex_iff)
qed

theorem delete_spec_witness:
  "\<not> list_ex (id_is ''p9'')
     [[(''id'', PStr ''p1''), (''stock'', PInt 5)], [(''id'', PStr ''p2''), (''stock'', PInt 2)]] \<and>
   delete [[(''id'', PStr ''p1''), (''stock'', PInt 5)], [(''id'', PStr ''p2''), (''stock'', PInt 2)]]
     ''p9'' =
     (False, [[(''id'', PStr ''p1''), (''stock'', PInt 5)], [(''id'', PStr ''p2''), (''stock'', PInt 2)]]) \<and>
   list_ex (id_is ''p1'')
     [[(''id'', PStr ''p1''), (''stock'', PInt 5)], [(''id'', PStr ''p2''), (''stock'', PInt 2)]] \<and>
   delete [[(''id'', PStr ''p1''), (''stock'', PInt 5)], [(''id'', PStr ''p2''), (''stock'', PInt 2)]]
     ''p1'' =
     (True, [[(''id'', PStr ''p2''), (''stock'', PInt 2)]])"
  using delete_spec [of "''p9''"
      "[[(''id'', PStr ''p1''), (''stock'', PInt 5)], [(''id'', PStr ''p2''), (''stock'', PInt 2)]]"]
    delete_spec [of "''p1''"
      "[[(''id'', PStr ''p1''), (''stock'', PInt 5)], [(''id'', PStr ''p2''), (''stock'', PInt 2)]]"]
  by (simp add: id_is_def)

section \<open>The codecs, field by field\<close>

lemma map_of_defaults:
  "map_of (map (\<lambda>(key, v). if P v then (key, d key) else (key, v)) r) k =
     map_option (\<lambda>v. if P v then d k else v) (map_of r k)"
  by (induction r) auto

lemma map_of_force_str:
  "map_of (force_str L k r) k' =
     (if k' = k then map_option (\<lambda>v. PStr (py_str L v)) (map_of r k) else map_of r k')"
  by (auto simp: force_str_def update_conv' split: option.splits)

lemma map_of_float_unless_none:
  "map_of (float_unless_none L k r) k' =
     (if k' = k
      then (case map_of r k of
              None \<Rightarrow> None
            | Some v \<Rightarrow>
                if v = PNone then Some PNone
                else Some (PFloat (case py_float L v of Inl e \<Rightarrow> 0 | Inr x \<Rightarrow> x)))
      else map_of r k')"
  by (auto simp: float_unless_none_def update_conv' split: option.splits pyval.splits)

lemma map_of_int_unless_none:
  "map_of (int_unless_none L k r) k' =
     (if k' = k
      then (case map_of r k of
              None \<Rightarrow> None
            | Some v \<Rightarrow>
                if v = PNone then Some PNone
                else Some (PInt (case py_int L v of Inl e \<Rightarrow> 0 | Inr n \<Rightarrow> n)))
      else map_of r k')"
  by (auto simp: int_unless_none_def update_conv' split: option.splits pyval.splits)

lemma map_of_float_or_zero:
  "map_of (float_or_zero L k r) k' =
     (if k' = k
      then map_option
             (\<lambda>v. PFloat (if v = PNone then 0 else (case py_float L v of Inl e \<Rightarrow> 0 | Inr x \<Rightarrow> x)))
             (map_of r k)
      else map_of r k')"
  by (auto simp: float_or_zero_def update_conv' split: option.splits)

lemma map_of_int_or_zero:
  "map_of (int_or_zero L k r) k' =
     (if k' = k
      then map_option
             (\<lambda>v. PInt (if v = PNone then 0 else (case py_int L v of Inl e \<Rightarrow> 0 | Inr n \<Rightarrow> n)))
             (map_of r k)
      else map_of r k')"
  by (auto simp: int_or_zero_def update_conv' split: option.splits)

lemma map_of_decode_field:
  "map_of (decode_field L k dflt r) k' =
     (if k' = k
      then (case map_of r k of
              None \<Rightarrow> Some dflt
            | Some PNone \<Rightarrow> Some dflt
            | Some (PStr s) \<Rightarrow> Some (case json_loads L s of None \<Rightarrow> dflt | Some v \<Rightarrow> v)
            | Some v \<Rightarrow> Some v)
      else map_of r k')"
  by (auto simp: decode_field_def update_conv' split: option.splits pyval.splits)

lemmas map_of_codec =
  map_of_defaults map_of_force_str map_of_float_unless_none map_of_int_unless_none
  map_of_float_or_zero map_of_int_or_zero map_of_decode_field

lemma decode_field_nonempty: "decode_field L k dflt r \<noteq> []"
  by (auto simp: decode_field_def split: option.splits pyval.splits) 

lemma process_product_nonempty: "process_product_record L r \<noteq> []"
  by (simp add: process_product_record_def decode_field_nonempty)

lemma process_customer_nonempty: "process_customer_record L r \<noteq> []"
  by (simp add: process_customer_record_def decode_field_nonempty)



section \<open>Sale creation\<close>



lemma encode_variants_stock [simp]:
  "encode_variants L [(''stock'', v)] = [(''stock'', v)]"
  by (simp add: encode_variants_def)

lemma trunc_of_int [simp]: "trunc (of_int k) = k"
  by (simp add: trunc_def)




lemma list_ex_find: "list_ex P xs \<longleftrightarrow> find P xs \<noteq> None"
  by (auto simp: find_None_iff list_ex_iff)







lemma id_is_update_stock [simp]: "id_is p (AList.update ''stock'' v row) = id_is p row"
  by (simp add: id_is_def update_conv')











text \<open>
  Claim C4. \<^verbatim>\<open>create_sale\<close> is not atomic. In the sample shop (stock 5 of \<^verbatim>\<open>p1\<close>, stock 2
  of \<^verbatim>\<open>p2\<close>, no product \<^verbatim>\<open>p9\<close>) a request for 2 of \<^verbatim>\<open>p1\<close> and then 1 of \<^verbatim>\<open>p9\<close>
  fails with \<open>NotFound\<close>, and a request for 2 of \<^verbatim>\<open>p1\<close> and then 3 of \<^verbatim>\<open>p2\<close> fails with
  \<open>InsufficientStock\<close>; in both, no sale is inserted and the stock of \<^verbatim>\<open>p1\<close> is left at 3.
\<close>

theorem create_sale_not_atomic:
  "length (items (order [line ''p1'' 2 20, line ''p9'' 1 5] 45 (Some 45) None)) = 2 \<and>
   current_stock L (products shop) ''p1'' = Some (PInt 5) \<and>
   current_stock L (products shop) ''p9'' = None \<and>
   (case create_sale L now\<^sub>c now\<^sub>s uid shop
           (order [line ''p1'' 2 20, line ''p9'' 1 5] 45 (Some 45) None) of
      (r, st') \<Rightarrow>
        r = Inl NotFound \<and> sales st' = sales shop \<and> customers st' = customers shop \<and>
        current_stock L (products st') ''p1'' = Some (PInt 3)) \<and>
   current_stock L (products shop) ''p2'' = Some (PInt 2) \<and>
   (case create_sale L now\<^sub>c now\<^sub>s uid shop
           (order [line ''p1'' 2 20, line ''p2'' 3 15] 85 (Some 85) None) of
      (r, st') \<Rightarrow>
        r = Inl InsufficientStock \<and> sales st' = sales shop \<and> customers st' = customers shop \<and>
        current_stock L (products st') ''p1'' = Some (PInt 3))"
  by (simp add: eval_defs shop_def order_def line_def cong: eval_cong)

lemma py_add_float_num: "py_num v = Some x \<Longrightarrow> py_add_float v t = Inr (PFloat (x + t))"
  by (cases v) auto

lemma customer_spent_num:
  "\<exists>x. py_num (dict_get (process_customer_record L r) ''total_spent'' (PInt 0)) = Some x"
  unfolding process_customer_record_def dict_get_def
  by (cases "map_of r ''total_spent''") (auto simp: map_of_codec)

lemma customer_visits_int:
  "\<exists>n. dict_get (process_customer_record L r) ''visits'' (PInt 0) = PInt n"
  unfolding process_customer_record_def dict_get_def
  by (cases "map_of r ''visits''") (auto simp: map_of_codec)

lemma customer_points_int:
  "\<exists>n. dict_get (process_customer_record L r) ''loyalty_points'' (PInt 0) = PInt n"
  unfolding process_customer_record_def dict_get_def
  by (cases "map_of r ''loyalty_points''") (auto simp: map_of_codec)

lemma customer_step_skip:
  "customer_find_by_id L df cid = None \<Longrightarrow> customer_id sale = Some cid \<Longrightarrow>
     update_customer_stats L now df sale = Inr df"
  by (simp add: update_customer_stats_def)

lemma customer_update_table:
  "bnd (customer_update L df cid data) (\<lambda>u. Inr (snd u)) =
   bnd (update df cid (encode_preferences L data)) (\<lambda>u. Inr (snd u))"
  by (auto simp: customer_update_def split: sum.splits option.splits prod.splits)

lemma encode_preferences_stats [simp]:
  "encode_preferences L (customer_stats x v p sale now) = customer_stats x v p sale now"
  by (simp add: encode_preferences_def customer_stats_def)

lemma customer_step_update:
  assumes c: "customer_find_by_id L df cid = Some customer"
    and cid: "customer_id sale = Some cid" "cid \<noteq> []"
  shows "\<exists>x v p.
           py_num (dict_get customer ''total_spent'' (PInt 0)) = Some x \<and>
           dict_get customer ''visits'' (PInt 0) = PInt v \<and>
           dict_get customer ''loyalty_points'' (PInt 0) = PInt p \<and>
           update_customer_stats L now df sale =
             bnd (update df cid (customer_stats x v p sale now)) (\<lambda>u. Inr (snd u))"
proof -
  from c obtain r where customer: "customer = process_customer_record L r"
    by (auto simp: customer_find_by_id_def split: option.splits)
  obtain x where x: "py_num (dict_get customer ''total_spent'' (PInt 0)) = Some x"
    unfolding customer using customer_spent_num by blast
  obtain v where v: "dict_get customer ''visits'' (PInt 0) = PInt v"
    unfolding customer using customer_visits_int by blast
  obtain p where p: "dict_get customer ''loyalty_points'' (PInt 0) = PInt p"
    unfolding customer using customer_points_int by blast
  have ne: "customer \<noteq> []" unfolding customer by (rule process_customer_nonempty)
  have "update_customer_stats L now df sale =
          bnd (customer_update L df cid (customer_stats x v p sale now)) (\<lambda>u. Inr (snd u))"
    using c cid ne v p py_add_float_num [OF x]
    by (simp add: update_customer_stats_def customer_stats_def)
  with x v p show ?thesis by (auto simp: customer_update_table)
qed

lemma sale_dict_keys [simp]:
  "map_of (sale_dict s) ''paid_amount'' = Some (opt_float (paid_amount s))"
  "map_of (sale_dict s) ''total'' = Some (PFloat (total s))"
  "map_of (sale_dict s) ''timestamp'' = Some (opt_str (timestamp s))"
  "map_of (sale_dict s) ''items'' = Some (PList (map item_dict (items s)))"
  "map_of (sale_dict s) ''id'' = None"
  by (simp_all add: sale_dict_def)

lemma map_of_encode_items:
  "k \<noteq> ''items'' \<Longrightarrow> map_of (encode_items L data) k = map_of data k"
  by (auto simp: encode_items_def update_conv' split: option.splits pyval.splits)

lemma payment_status_none:
  "map_of data ''paid_amount'' = Some PNone \<Longrightarrow> map_of data ''total'' = Some t \<Longrightarrow>
     payment_status L data = Inl TypeError"
  by (simp add: payment_status_def)

lemma sales_create_none:
  assumes "map_of data ''paid_amount'' = Some PNone" "map_of data ''total'' = Some t"
  shows "sales_create L now uid df data = Inl TypeError"
proof -
  let ?d1 = "encode_items L data"
  let ?d2 = "if map_of ?d1 ''timestamp'' = None then AList.update ''timestamp'' (PStr now) ?d1 else ?d1"
  have "map_of ?d2 ''paid_amount'' = Some PNone" "map_of ?d2 ''total'' = Some t"
    using assms by (auto simp: map_of_encode_items update_conv')
  then have "payment_status L ?d2 = Inl TypeError" by (rule payment_status_none)
  then show ?thesis by (simp add: sales_create_def Let_def)
qed

text \<open>
  Claim C10. A request that omits \<^verbatim>\<open>paid_amount\<close> never inserts a sale. \<^verbatim>\<open>sale.dict()\<close>
  holds the key with the value \<^verbatim>\<open>None\<close>, so the payment branch is entered and
  \<^verbatim>\<open>float(None)\<close> raises. When the loop over the items has accepted every item, the call
  fails with the generic internal failure, and what was written before stays written: the
  products table the loop wrote, and the customers table the customer step wrote when that
  step did not raise itself. When the loop rejects an item, the call fails with the error
  of the loop, not with the generic failure: the payment branch is not reached.
\<close>

theorem create_sale_without_paid_amount:
  assumes "paid_amount sale = None"
  shows "sales (snd (create_sale L now\<^sub>c now\<^sub>s uid st sale)) = sales st \<and>
         (case sell_items L (products st) (items sale) of
            (Some e, df\<^sub>p) \<Rightarrow>
              create_sale L now\<^sub>c now\<^sub>s uid st sale = (Inl e, st\<lparr>products := df\<^sub>p\<rparr>)
          | (None, df\<^sub>p) \<Rightarrow>
              (case update_customer_stats L now\<^sub>c (customers st) sale of
                 Inl e \<Rightarrow>
                   create_sale L now\<^sub>c now\<^sub>s uid st sale =
                     (Inl InternalFailure, st\<lparr>products := df\<^sub>p\<rparr>)
               | Inr df\<^sub>c \<Rightarrow>
                   create_sale L now\<^sub>c now\<^sub>s uid st sale =
                     (Inl InternalFailure, st\<lparr>products := df\<^sub>p, customers := df\<^sub>c\<rparr>)))"
proof -
  have sc: "sales_create L now\<^sub>s uid (sales st) (sale_dict sale) = Inl TypeError"
    by (rule sales_create_none [where t = "PFloat (total sale)"])
       (simp_all add: assms opt_float_def)
  obtain r df\<^sub>p where s: "sell_items L (products st) (items sale) = (r, df\<^sub>p)"
    by (cases "sell_items L (products st) (items sale)")
  show ?thesis
    by (cases r; cases "update_customer_stats L now\<^sub>c (customers st) sale")
       (simp_all add: create_sale_def s sc)
qed

theorem create_sale_without_paid_amount_witness:
  "paid_amount (order [line ''p1'' 2 20] 40 None (Some ''c1'')) = None \<and>
   (case create_sale sample_lib ''2026-11-04T10:00:00'' ''2026-11-04T10:00:01'' ''s1'' shop
           (order [line ''p1'' 2 20] 40 None (Some ''c1'')) of
      (r, st') \<Rightarrow>
        r = Inl InternalFailure \<and> sales st' = [] \<and>
        current_stock sample_lib (products st') ''p1'' = Some (PInt 3) \<and>
        map (map_of (the (find_by_id (customers st') ''c1'')))
            [''total_spent'', ''visits'', ''loyalty_points''] =
          [Some (PFloat 40), Some (PInt 1), Some (PInt 40)])"
proof -
  have h: "paid_amount (order [line ''p1'' 2 20] 40 None (Some ''c1'')) = None"
    by (simp add: order_def)
  from create_sale_without_paid_amount
         [OF h, of sample_lib "''2026-11-04T10:00:00''" "''2026-11-04T10:00:01''" "''s1''" shop]
  have "case create_sale sample_lib ''2026-11-04T10:00:00'' ''2026-11-04T10:00:01'' ''s1'' shop
               (order [line ''p1'' 2 20] 40 None (Some ''c1'')) of
          (r, st') \<Rightarrow>
            r = Inl InternalFailure \<and> sales st' = [] \<and>
            current_stock sample_lib (products st') ''p1'' = Some (PInt 3) \<and>
            map (map_of (the (find_by_id (customers st') ''c1'')))
                [''total_spent'', ''visits'', ''loyalty_points''] =
              [Some (PFloat 40), Some (PInt 1), Some (PInt 40)]"
    by (simp add: eval_base shop_def order_def line_def cong: eval_cong)
  with h show ?thesis by (intro conjI)
qed

text \<open>
  The claim as it stands promises the generic internal failure for every request without
  \<^verbatim>\<open>paid_amount\<close>. In the sample shop a request for 9 of \<^verbatim>\<open>p1\<close> (stock 5) fails with
  \<open>InsufficientStock\<close> and a request for the absent \<^verbatim>\<open>p9\<close> with \<open>NotFound\<close>, both with
  status 400.
\<close>

theorem create_sale_without_paid_amount_rejected:
  "paid_amount (order [line ''p1'' 9 20] 180 None None) = None \<and>
   create_sale sample_lib ''2026-11-04T10:00:00'' ''2026-11-04T10:00:01'' ''s1'' shop
     (order [line ''p1'' 9 20] 180 None None) = (Inl InsufficientStock, shop) \<and>
   status_code InsufficientStock = 400 \<and>
   paid_amount (order [line ''p9'' 1 20] 20 None None) = None \<and>
   create_sale sample_lib ''2026-11-04T10:00:00'' ''2026-11-04T10:00:01'' ''s1'' shop
     (order [line ''p9'' 1 20] 20 None None) = (Inl NotFound, shop) \<and>
   status_code NotFound = 400 \<and> status_code InternalFailure = 500"
  by (simp add: eval_defs shop_def order_def line_def cong: eval_cong)

lemma nan_like_length: "length s \<noteq> 3 \<Longrightarrow> \<not> nan_like (PStr s)"
  by (auto dest: arg_cong [where f = length])

lemma map_of_create_row:
  "k \<noteq> ''id'' \<Longrightarrow> map_of (fst (create uid df data)) k = map_of data k"
  by (simp add: create_def Let_def update_conv')

lemma create_pair:
  "create uid df data = (fst (create uid df data), df @ [fst (create uid df data)])"
  by (simp add: create_def Let_def)

lemma sales_create_floats:
  assumes p: "map_of data ''paid_amount'' = Some (PFloat p)"
    and t: "map_of data ''total'' = Some (PFloat t)"
  shows "\<exists>row. sales_create L now uid df data = Inr (process_sale_record L row, df @ [row]) \<and>
           (if p \<ge> t
            then map_of row ''status'' = Some (PStr ''completed'') \<and>
                 map_of row ''remaining_amount'' = Some (PInt 0) \<and>
                 map_of row ''paid_amount'' = Some (PFloat t)
            else map_of row ''status'' = Some (PStr ''partial_payment'') \<and>
                 map_of row ''remaining_amount'' = Some (PFloat (t - p)) \<and>
                 map_of row ''paid_amount'' = Some (PFloat p))"
proof -
  let ?d1 = "encode_items L data"
  let ?d2 = "if map_of ?d1 ''timestamp'' = None then AList.update ''timestamp'' (PStr now) ?d1 else ?d1"
  let ?d3 = "if p \<ge> t
             then AList.update ''paid_amount'' (PFloat t)
                    (AList.update ''remaining_amount'' (PInt 0)
                      (AList.update ''status'' (PStr ''completed'') ?d2))
             else AList.update ''remaining_amount'' (PFloat (t - p))
                    (AList.update ''status'' (PStr ''partial_payment'') ?d2)"
  let ?row = "if map_of ?d3 ''id'' = None then AList.update ''id'' (PStr uid) ?d3 else ?d3"
  have d2: "map_of ?d2 ''paid_amount'' = Some (PFloat p)" "map_of ?d2 ''total'' = Some (PFloat t)"
    using p t by (auto simp: map_of_encode_items update_conv')
  then have ps: "payment_status L ?d2 = Inr ?d3"
    by (simp add: payment_status_def)
  have cr: "create uid df ?d3 = (?row, df @ [?row])"
    unfolding create_def Let_def by (rule refl)
  have sc: "sales_create L now uid df data = Inr (process_sale_record L ?row, df @ [?row])"
    unfolding sales_create_def Let_def ps bnd.simps cr prod.case by (rule refl)
  have fields:
    "if p \<ge> t
     then map_of ?row ''status'' = Some (PStr ''completed'') \<and>
          map_of ?row ''remaining_amount'' = Some (PInt 0) \<and>
          map_of ?row ''paid_amount'' = Some (PFloat t)
     else map_of ?row ''status'' = Some (PStr ''partial_payment'') \<and>
          map_of ?row ''remaining_amount'' = Some (PFloat (t - p)) \<and>
          map_of ?row ''paid_amount'' = Some (PFloat p)"
    using d2 by (simp add: update_conv')
  from sc fields show ?thesis by blast
qed

lemma processed_sale_fields:
  "map_of row ''status'' = Some (PStr s) \<Longrightarrow> length s \<noteq> 3 \<Longrightarrow>
     map_of (process_sale_record L row) ''status'' = Some (PStr s)"
  "map_of row ''remaining_amount'' = Some (PInt n) \<Longrightarrow>
     map_of (process_sale_record L row) ''remaining_amount'' = Some (PFloat (of_int n))"
  "map_of row ''remaining_amount'' = Some (PFloat x) \<Longrightarrow>
     map_of (process_sale_record L row) ''remaining_amount'' = Some (PFloat x)"
  "map_of row ''paid_amount'' = Some (PFloat x) \<Longrightarrow>
     map_of (process_sale_record L row) ''paid_amount'' = Some (PFloat x)"
  using nan_like_length [of s]
  by (simp_all add: process_sale_record_def map_of_codec)

text \<open>
  Claim C2. \<^verbatim>\<open>SalesCSVHandler.create\<close> on a dictionary whose \<^verbatim>\<open>paid_amount\<close> and
  \<^verbatim>\<open>total\<close> are floats \<open>p\<close> and \<open>t\<close> succeeds and appends one row. With \<open>p \<ge> t\<close> the row has
  status \<^verbatim>\<open>completed\<close>, remaining amount 0 and paid amount \<open>t\<close>; with \<open>p < t\<close> it has status
  \<^verbatim>\<open>partial_payment\<close>, remaining amount \<open>t - p\<close> and paid amount \<open>p\<close>. The returned record
  shows the same values, the amounts as floats.
\<close>

theorem sales_create_payment_status:
  assumes p: "map_of data ''paid_amount'' = Some (PFloat p)"
    and t: "map_of data ''total'' = Some (PFloat t)"
  shows "\<exists>created row. sales_create L now uid df data = Inr (created, df @ [row]) \<and>
           (if p \<ge> t
            then map_of row ''status'' = Some (PStr ''completed'') \<and>
                 map_of row ''remaining_amount'' = Some (PInt 0) \<and>
                 map_of row ''paid_amount'' = Some (PFloat t) \<and>
                 map_of created ''status'' = Some (PStr ''completed'') \<and>
                 map_of created ''remaining_amount'' = Some (PFloat 0) \<and>
                 map_of created ''paid_amount'' = Some (PFloat t)
            else map_of row ''status'' = Some (PStr ''partial_payment'') \<and>
                 map_of row ''remaining_amount'' = Some (PFloat (t - p)) \<and>
                 map_of row ''paid_amount'' = Some (PFloat p) \<and>
                 map_of created ''status'' = Some (PStr ''partial_payment'') \<and>
                 map_of created ''remaining_amount'' = Some (PFloat (t - p)) \<and>
                 map_of created ''paid_amount'' = Some (PFloat p))"
proof -
  from sales_create_floats [OF p t, of L now uid df]
  obtain row where
    sc: "sales_create L now uid df data = Inr (process_sale_record L row, df @ [row])"
    and f: "if p \<ge> t
            then map_of row ''status'' = Some (PStr ''completed'') \<and>
                 map_of row ''remaining_amount'' = Some (PInt 0) \<and>
                 map_of row ''paid_amount'' = Some (PFloat t)
            else map_of row ''status'' = Some (PStr ''partial_payment'') \<and>
                 map_of row ''remaining_amount'' = Some (PFloat (t - p)) \<and>
                 map_of row ''paid_amount'' = Some (PFloat p)"
    by blast
  show ?thesis
  proof (cases "p \<ge> t")
    case True
    with f sc show ?thesis
      by (intro exI [of _ "process_sale_record L row"] exI [of _ row])
         (simp add: processed_sale_fields)
  next
    case False
    with f sc show ?thesis
      by (intro exI [of _ "process_sale_record L row"] exI [of _ row])
         (simp add: processed_sale_fields)
  qed
qed

theorem sales_create_payment_status_witness:
  "map_of (sale_dict (order [line ''p1'' 1 20] 100 (Some 40) None)) ''paid_amount'' =
     Some (PFloat 40) \<and>
   map_of (sale_dict (order [line ''p1'' 1 20] 100 (Some 40) None)) ''total'' =
     Some (PFloat 100) \<and>
   (\<exists>created row.
      sales_create sample_lib ''2026-11-04T10:00:01'' ''s1'' []
        (sale_dict (order [line ''p1'' 1 20] 100 (Some 40) None)) = Inr (created, [row]) \<and>
      map (map_of row) [''status'', ''remaining_amount'', ''paid_amount''] =
        [Some (PStr ''partial_payment''), Some (PFloat 60), Some (PFloat 40)] \<and>
      map (map_of created) [''status'', ''remaining_amount'', ''paid_amount''] =
        [Some (PStr ''partial_payment''), Some (PFloat 60), Some (PFloat 40)]) \<and>
   map_of (sale_dict (order [line ''p1'' 1 20] 100 (Some 150) None)) ''paid_amount'' =
     Some (PFloat 150) \<and>
   map_of (sale_dict (order [line ''p1'' 1 20] 100 (Some 150) None)) ''total'' =
     Some (PFloat 100) \<and>
   (\<exists>created row.
      sales_create sample_lib ''2026-11-04T10:00:01'' ''s1'' []
        (sale_dict (order [line ''p1'' 1 20] 100 (Some 150) None)) = Inr (created, [row]) \<and>
      map (map_of row) [''status'', ''remaining_amount'', ''paid_amount''] =
        [Some (PStr ''completed''), Some (PInt 0), Some (PFloat 100)] \<and>
      map (map_of created) [''status'', ''remaining_amount'', ''paid_amount''] =
        [Some (PStr ''completed''), Some (PFloat 0), Some (PFloat 100)])"
proof -
  have p40: "map_of (sale_dict (order [line ''p1'' 1 20] 100 (Some 40) None)) ''paid_amount'' =
               Some (PFloat 40)"
    and t40: "map_of (sale_dict (order [line ''p1'' 1 20] 100 (Some 40) None)) ''total'' =
               Some (PFloat 100)"
    and p150: "map_of (sale_dict (order [line ''p1'' 1 20] 100 (Some 150) None)) ''paid_amount'' =
               Some (PFloat 150)"
    and t150: "map_of (sale_dict (order [line ''p1'' 1 20] 100 (Some 150) None)) ''total'' =
               Some (PFloat 100)"
    by (simp_all add: order_def opt_float_def)
  from sales_create_payment_status
         [OF p40 t40, of sample_lib "''2026-11-04T10:00:01''" "''s1''" "[]"]
  have a: "\<exists>created row.
      sales_create sample_lib ''2026-11-04T10:00:01'' ''s1'' []
        (sale_dict (order [line ''p1'' 1 20] 100 (Some 40) None)) = Inr (created, [row]) \<and>
      map (map_of row) [''status'', ''remaining_amount'', ''paid_amount''] =
        [Some (PStr ''partial_payment''), Some (PFloat 60), Some (PFloat 40)] \<and>
      map (map_of created) [''status'', ''remaining_amount'', ''paid_amount''] =
        [Some (PStr ''partial_payment''), Some (PFloat 60), Some (PFloat 40)]"
    by simp
  from sales_create_payment_status
         [OF p150 t150, of sample_lib "''2026-11-04T10:00:01''" "''s1''" "[]"]
  have b: "\<exists>created row.
      sales_create sample_lib ''2026-11-04T10:00:01'' ''s1'' []
        (sale_dict (order [line ''p1'' 1 20] 100 (Some 150) None)) = Inr (created, [row]) \<and>
      map (map_of row) [''status'', ''remaining_amount'', ''paid_amount''] =
        [Some (PStr ''completed''), Some (PInt 0), Some (PFloat 100)] \<and>
      map (map_of created) [''status'', ''remaining_amount'', ''paid_amount''] =
        [Some (PStr ''completed''), Some (PFloat 0), Some (PFloat 100)]"
    by simp
  show ?thesis by (intro conjI p40 t40 a p150 t150 b)
qed

lemma sales_create_row:
  assumes paid: "paid_amount sale = Some paid"
  shows "\<exists>row. sales_create L now uid df (sale_dict sale) =
                  Inr (process_sale_record L row, df @ [row]) \<and>
               stored_sale L uid sale row"
proof -
  define d1 where "d1 = encode_items L (sale_dict sale)"
  define d3 where
    "d3 = (if paid \<ge> total sale
           then AList.update ''paid_amount'' (PFloat (total sale))
                  (AList.update ''remaining_amount'' (PInt 0)
                    (AList.update ''status'' (PStr ''completed'') d1))
           else AList.update ''remaining_amount'' (PFloat (total sale - paid))
                  (AList.update ''status'' (PStr ''partial_payment'') d1))"
  define row where "row = AList.update ''id'' (PStr uid) d3"
  have m1: "\<And>k. k \<noteq> ''items'' \<Longrightarrow> map_of d1 k = map_of (sale_dict sale) k"
    by (simp add: d1_def map_of_encode_items)
  have i1: "map_of d1 ''items'' =
              Some (PStr (json_dumps L (PList (map item_dict (items sale)))))"
    by (simp add: d1_def encode_items_def update_conv')
  have m3: "\<And>k. k \<noteq> ''paid_amount'' \<Longrightarrow> k \<noteq> ''remaining_amount'' \<Longrightarrow> k \<noteq> ''status'' \<Longrightarrow>
              map_of d3 k = map_of d1 k"
    by (simp add: d3_def update_conv')
  have ps: "payment_status L d1 = Inr d3"
    by (simp add: payment_status_def m1 paid opt_float_def d3_def)
  have cr: "create uid df d3 = (row, df @ [row])"
    by (simp add: create_def Let_def row_def m3 m1)
  have sc: "sales_create L now uid df (sale_dict sale) =
              Inr (process_sale_record L row, df @ [row])"
    by (simp add: sales_create_def Let_def d1_def [symmetric] m1 ps cr)
  have "stored_sale L uid sale row"
    by (simp add: stored_sale_def row_def update_conv' m3 m1 i1 sale_dict_def)
  with sc show ?thesis by blast
qed

lemma create_sale_stored:
  assumes its: "sell_items L (products st) (items sale) = (None, df\<^sub>p)"
    and cust: "update_customer_stats L now\<^sub>c (customers st) sale = Inr df\<^sub>c"
    and paid: "paid_amount sale = Some paid"
  shows "\<exists>created row.
           create_sale L now\<^sub>c now\<^sub>s uid st sale =
             (Inr created, st\<lparr>products := df\<^sub>p, customers := df\<^sub>c, sales := sales st @ [row]\<rparr>) \<and>
           stored_sale L uid sale row"
proof -
  from sales_create_row [OF paid, of L now\<^sub>s uid "sales st"]
  obtain row where
    "sales_create L now\<^sub>s uid (sales st) (sale_dict sale) =
       Inr (process_sale_record L row, sales st @ [row])"
    and "stored_sale L uid sale row"
    by blast
  then show ?thesis
    by (intro exI [of _ "process_sale_record L row"] exI [of _ row])
       (simp add: create_sale_def its cust)
qed

lemma create_sale_customer_failed:
  assumes its: "sell_items L (products st) (items sale) = (None, df\<^sub>p)"
    and cust: "update_customer_stats L now\<^sub>c (customers st) sale = Inl e"
  shows "create_sale L now\<^sub>c now\<^sub>s uid st sale = (Inl InternalFailure, st\<lparr>products := df\<^sub>p\<rparr>)"
  by (simp add: create_sale_def its cust)

lemma customer_stats_keys:
  "distinct (map fst (customer_stats x v p sale now))"
  "fst ` set (customer_stats x v p sale now) =
     {''total_spent'', ''visits'', ''loyalty_points'', ''last_visit''}"
  "map_of (customer_stats x v p sale now) ''total_spent'' = Some (PFloat (x + total sale))"
  "map_of (customer_stats x v p sale now) ''visits'' = Some (PInt (v + 1))"
  "map_of (customer_stats x v p sale now) ''loyalty_points'' = Some (PInt (p + trunc (total sale)))"
  "map_of (customer_stats x v p sale now) ''last_visit'' = Some (PStr now)"
  by (auto simp: customer_stats_def)

lemma customer_rows:
  assumes found: "customer_find_by_id L df cid = Some customer"
    and fit: "fits df (customer_stats x v p sale now)"
  shows "\<exists>r df'. update df cid (customer_stats x v p sale now) = Inr (r, df') \<and>
           length df' = length df \<and>
           (\<forall>i<length df.
              (if id_is cid (df ! i)
               then map_of (df' ! i) ''total_spent'' = Some (PFloat (x + total sale)) \<and>
                    map_of (df' ! i) ''visits'' = Some (PInt (v + 1)) \<and>
                    map_of (df' ! i) ''loyalty_points'' = Some (PInt (p + trunc (total sale))) \<and>
                    map_of (df' ! i) ''last_visit'' = Some (PStr now) \<and>
                    (\<forall>k. k \<notin> {''total_spent'', ''visits'', ''loyalty_points'', ''last_visit''} \<longrightarrow>
                       map_of (df' ! i) k = map_of (df ! i) k)
               else df' ! i = df ! i))"
proof -
  from found have ex: "list_ex (id_is cid) df"
    by (auto simp: customer_find_by_id_def find_by_id_def list_ex_find split: option.splits)
  from update_rows [OF ex customer_stats_keys(1) fit]
  obtain r df' where u: "update df cid (customer_stats x v p sale now) = Inr (r, df')"
    and len: "length df' = length df"
    and rows: "\<And>i. i < length df \<Longrightarrow>
                 (if id_is cid (df ! i)
                  then \<forall>k. map_of (df' ! i) k =
                         (if k \<noteq> ''id'' \<and> k \<in> fst ` set (customer_stats x v p sale now)
                          then map_of (customer_stats x v p sale now) k
                          else map_of (df ! i) k)
                  else df' ! i = df ! i)"
    by blast
  have "\<forall>i<length df.
          (if id_is cid (df ! i)
           then map_of (df' ! i) ''total_spent'' = Some (PFloat (x + total sale)) \<and>
                map_of (df' ! i) ''visits'' = Some (PInt (v + 1)) \<and>
                map_of (df' ! i) ''loyalty_points'' = Some (PInt (p + trunc (total sale))) \<and>
                map_of (df' ! i) ''last_visit'' = Some (PStr now) \<and>
                (\<forall>k. k \<notin> {''total_spent'', ''visits'', ''loyalty_points'', ''last_visit''} \<longrightarrow>
                   map_of (df' ! i) k = map_of (df ! i) k)
           else df' ! i = df ! i)"
  proof (intro allI impI)
    fix i assume "i < length df"
    from rows [OF this] show
      "if id_is cid (df ! i)
       then map_of (df' ! i) ''total_spent'' = Some (PFloat (x + total sale)) \<and>
            map_of (df' ! i) ''visits'' = Some (PInt (v + 1)) \<and>
            map_of (df' ! i) ''loyalty_points'' = Some (PInt (p + trunc (total sale))) \<and>
            map_of (df' ! i) ''last_visit'' = Some (PStr now) \<and>
            (\<forall>k. k \<notin> {''total_spent'', ''visits'', ''loyalty_points'', ''last_visit''} \<longrightarrow>
               map_of (df' ! i) k = map_of (df ! i) k)
       else df' ! i = df ! i"
      by (simp add: customer_stats_keys split: if_splits)
  qed
  with u len show ?thesis by blast
qed

text \<open>
  Claim C3. Let the loop over the items have accepted every item, let the request name a
  customer by a non-empty key and let it carry a paid amount. If no customer has the key,
  the call succeeds: it returns the created record, appends the row of the sale to the
  sales table and leaves the customers table as it is. If a customer has the key, the
  normalised record holds numbers \<open>x\<close>, \<open>v\<close>, \<open>p\<close> for \<^verbatim>\<open>total_spent\<close>, \<^verbatim>\<open>visits\<close> and
  \<^verbatim>\<open>loyalty_points\<close>, and the customer step is one call of \<open>update\<close> with \<open>x + total\<close>,
  \<open>v + 1\<close>, \<open>p\<close> plus the truncated total and the clock reading. When that call returns,
  the customers table is the one it wrote and the sale is stored; when it raises, the call
  fails with the generic internal failure, no customer record changes and no sale is
  stored. It returns whenever the four values fit the customers table, and then the rows of
  the customer read the four new values, keep their other fields, and the other rows are
  unchanged.
\<close>

theorem create_sale_customer_stats:
  assumes its: "sell_items L (products st) (items sale) = (None, df\<^sub>p)"
    and cid: "customer_id sale = Some cid" "cid \<noteq> []"
    and paid: "paid_amount sale = Some paid"
  shows
    "(case customer_find_by_id L (customers st) cid of
        None \<Rightarrow>
          \<exists>created row.
            create_sale L now\<^sub>c now\<^sub>s uid st sale =
              (Inr created, st\<lparr>products := df\<^sub>p, sales := sales st @ [row]\<rparr>) \<and>
            stored_sale L uid sale row
      | Some customer \<Rightarrow>
          \<exists>x v p.
            py_num (dict_get customer ''total_spent'' (PInt 0)) = Some x \<and>
            dict_get customer ''visits'' (PInt 0) = PInt v \<and>
            dict_get customer ''loyalty_points'' (PInt 0) = PInt p \<and>
            (case update (customers st) cid (customer_stats x v p sale now\<^sub>c) of
               Inl e \<Rightarrow>
                 create_sale L now\<^sub>c now\<^sub>s uid st sale =
                   (Inl InternalFailure, st\<lparr>products := df\<^sub>p\<rparr>)
             | Inr (r, df\<^sub>c) \<Rightarrow>
                 \<exists>created row.
                   create_sale L now\<^sub>c now\<^sub>s uid st sale =
                     (Inr created,
                      st\<lparr>products := df\<^sub>p, customers := df\<^sub>c, sales := sales st @ [row]\<rparr>) \<and>
                   stored_sale L uid sale row) \<and>
            (fits (customers st) (customer_stats x v p sale now\<^sub>c) \<longrightarrow>
               (\<exists>r df\<^sub>c.
                  update (customers st) cid (customer_stats x v p sale now\<^sub>c) = Inr (r, df\<^sub>c) \<and>
                  length df\<^sub>c = length (customers st) \<and>
                  (\<forall>i<length (customers st).
                     (if id_is cid (customers st ! i)
                      then map_of (df\<^sub>c ! i) ''total_spent'' = Some (PFloat (x + total sale)) \<and>
                           map_of (df\<^sub>c ! i) ''visits'' = Some (PInt (v + 1)) \<and>
                           map_of (df\<^sub>c ! i) ''loyalty_points'' =
                             Some (PInt (p + trunc (total sale))) \<and>
                           map_of (df\<^sub>c ! i) ''last_visit'' = Some (PStr now\<^sub>c) \<and>
                           (\<forall>k. k \<notin> {''total_spent'', ''visits'', ''loyalty_points'',
                                      ''last_visit''} \<longrightarrow>
                              map_of (df\<^sub>c ! i) k = map_of (customers st ! i) k)
                      else df\<^sub>c ! i = customers st ! i)))))"
proof (cases "customer_find_by_id L (customers st) cid")
  case None
  with cid have "update_customer_stats L now\<^sub>c (customers st) sale = Inr (customers st)"
    by (simp add: customer_step_skip)
  from create_sale_stored [OF its this paid, of now\<^sub>s uid] None
  show ?thesis by simp
next
  case (Some customer)
  from customer_step_update [OF Some cid, of now\<^sub>c]
  obtain x v p where
    x: "py_num (dict_get customer ''total_spent'' (PInt 0)) = Some x"
    and v: "dict_get customer ''visits'' (PInt 0) = PInt v"
    and p: "dict_get customer ''loyalty_points'' (PInt 0) = PInt p"
    and step: "update_customer_stats L now\<^sub>c (customers st) sale =
                 bnd (update (customers st) cid (customer_stats x v p sale now\<^sub>c))
                   (\<lambda>u. Inr (snd u))"
    by blast
  have call:
    "case update (customers st) cid (customer_stats x v p sale now\<^sub>c) of
       Inl e \<Rightarrow>
         create_sale L now\<^sub>c now\<^sub>s uid st sale = (Inl InternalFailure, st\<lparr>products := df\<^sub>p\<rparr>)
     | Inr (r, df\<^sub>c) \<Rightarrow>
         \<exists>created row.
           create_sale L now\<^sub>c now\<^sub>s uid st sale =
             (Inr created, st\<lparr>products := df\<^sub>p, customers := df\<^sub>c, sales := sales st @ [row]\<rparr>) \<and>
           stored_sale L uid sale row"
  proof (cases "update (customers st) cid (customer_stats x v p sale now\<^sub>c)")
    case (Inl e)
    with step have "update_customer_stats L now\<^sub>c (customers st) sale = Inl e" by simp
    from create_sale_customer_failed [OF its this, of now\<^sub>s uid] Inl show ?thesis by simp
  next
    case (Inr u)
    obtain r df\<^sub>c where u: "u = (r, df\<^sub>c)" by (cases u)
    from step Inr u have "update_customer_stats L now\<^sub>c (customers st) sale = Inr df\<^sub>c" by simp
    from create_sale_stored [OF its this paid, of now\<^sub>s uid] Inr u show ?thesis by simp
  qed
  note rows = customer_rows [OF Some, of x v p sale now\<^sub>c]
  from x v p call rows Some show ?thesis by auto
qed

lemma floor_375: "\<lfloor>75 / 2 :: rat\<rfloor> = 37"
  by (rule floor_unique) simp_all

theorem create_sale_customer_stats_witness:
  "sell_items sample_lib (products shop)
     (items (order [line ''p1'' 1 20] (75 / 2) (Some (75 / 2)) (Some ''c1''))) =
     (None, snd (sell_items sample_lib (products shop) [line ''p1'' 1 20])) \<and>
   customer_id (order [line ''p1'' 1 20] (75 / 2) (Some (75 / 2)) (Some ''c1'')) = Some ''c1'' \<and>
   paid_amount (order [line ''p1'' 1 20] (75 / 2) (Some (75 / 2)) (Some ''c1'')) = Some (75 / 2) \<and>
   map (map_of (the (customer_find_by_id sample_lib (customers shop) ''c1'')))
       [''total_spent'', ''visits'', ''loyalty_points''] =
     [Some (PFloat 0), Some (PInt 0), Some (PInt 0)] \<and>
   fits (customers shop)
     (customer_stats 0 0 0 (order [line ''p1'' 1 20] (75 / 2) (Some (75 / 2)) (Some ''c1''))
        ''2026-11-04T10:00:00'') \<and>
   (\<exists>created row.
      create_sale sample_lib ''2026-11-04T10:00:00'' ''2026-11-04T10:00:01'' ''s1'' shop
        (order [line ''p1'' 1 20] (75 / 2) (Some (75 / 2)) (Some ''c1'')) =
        (Inr created,
         shop\<lparr>products := snd (sell_items sample_lib (products shop) [line ''p1'' 1 20]),
              customers :=
                [[(''id'', PStr ''c1''), (''first_name'', PStr ''Ada''), (''last_name'', PStr ''Lee''),
                  (''email'', PStr ''''), (''loyalty_points'', PInt 37),
                  (''total_spent'', PFloat (75 / 2)), (''visits'', PInt 1),
                  (''last_visit'', PStr ''2026-11-04T10:00:00''), (''preferences'', PStr '''')]],
              sales := [row]\<rparr>) \<and>
      stored_sale sample_lib ''s1''
        (order [line ''p1'' 1 20] (75 / 2) (Some (75 / 2)) (Some ''c1'')) row) \<and>
   sell_items sample_lib (products shop)
     (items (order [line ''p1'' 1 20] (75 / 2) (Some (75 / 2)) (Some ''c9''))) =
     (None, snd (sell_items sample_lib (products shop) [line ''p1'' 1 20])) \<and>
   customer_id (order [line ''p1'' 1 20] (75 / 2) (Some (75 / 2)) (Some ''c9'')) = Some ''c9'' \<and>
   paid_amount (order [line ''p1'' 1 20] (75 / 2) (Some (75 / 2)) (Some ''c9'')) = Some (75 / 2) \<and>
   customer_find_by_id sample_lib (customers shop) ''c9'' = None \<and>
   (\<exists>created row.
      create_sale sample_lib ''2026-11-04T10:00:00'' ''2026-11-04T10:00:01'' ''s1'' shop
        (order [line ''p1'' 1 20] (75 / 2) (Some (75 / 2)) (Some ''c9'')) =
        (Inr created,
         shop\<lparr>products := snd (sell_items sample_lib (products shop) [line ''p1'' 1 20]),
              sales := [row]\<rparr>) \<and>
      stored_sale sample_lib ''s1''
        (order [line ''p1'' 1 20] (75 / 2) (Some (75 / 2)) (Some ''c9'')) row)"
proof -
  have i1: "sell_items sample_lib (products shop)
              (items (order [line ''p1'' 1 20] (75 / 2) (Some (75 / 2)) (Some ''c1''))) =
            (None, snd (sell_items sample_lib (products shop) [line ''p1'' 1 20]))"
    and i9: "sell_items sample_lib (products shop)
              (items (order [line ''p1'' 1 20] (75 / 2) (Some (75 / 2)) (Some ''c9''))) =
            (None, snd (sell_items sample_lib (products shop) [line ''p1'' 1 20]))"
    by (simp_all add: eval_base shop_def order_def line_def cong: eval_cong)
  have c1: "customer_id (order [line ''p1'' 1 20] (75 / 2) (Some (75 / 2)) (Some ''c1'')) = Some ''c1''"
    and c9: "customer_id (order [line ''p1'' 1 20] (75 / 2) (Some (75 / 2)) (Some ''c9'')) = Some ''c9''"
    and p1: "paid_amount (order [line ''p1'' 1 20] (75 / 2) (Some (75 / 2)) (Some ''c1'')) = Some (75 / 2)"
    and p9: "paid_amount (order [line ''p1'' 1 20] (75 / 2) (Some (75 / 2)) (Some ''c9'')) = Some (75 / 2)"
    by (simp_all add: order_def)
  have n1: "''c1'' \<noteq> []" and n9: "''c9'' \<noteq> []" by simp_all
  have f1: "map (map_of (the (customer_find_by_id sample_lib (customers shop) ''c1'')))
              [''total_spent'', ''visits'', ''loyalty_points''] =
            [Some (PFloat 0), Some (PInt 0), Some (PInt 0)]"
    and f9: "customer_find_by_id sample_lib (customers shop) ''c9'' = None"
    by (simp_all add: eval_base shop_def cong: eval_cong)
  have ft: "fits (customers shop)
              (customer_stats 0 0 0 (order [line ''p1'' 1 20] (75 / 2) (Some (75 / 2)) (Some ''c1''))
                 ''2026-11-04T10:00:00'')"
    by (simp add: eval_base fits_def customer_stats_def shop_def order_def floor_375)
  from create_sale_customer_stats
         [OF i1 c1 n1 p1, of "''2026-11-04T10:00:00''" "''2026-11-04T10:00:01''" "''s1''"]
  have r1:
    "\<exists>created row.
      create_sale sample_lib ''2026-11-04T10:00:00'' ''2026-11-04T10:00:01'' ''s1'' shop
        (order [line ''p1'' 1 20] (75 / 2) (Some (75 / 2)) (Some ''c1'')) =
        (Inr created,
         shop\<lparr>products := snd (sell_items sample_lib (products shop) [line ''p1'' 1 20]),
              customers :=
                [[(''id'', PStr ''c1''), (''first_name'', PStr ''Ada''), (''last_name'', PStr ''Lee''),
                  (''email'', PStr ''''), (''loyalty_points'', PInt 37),
                  (''total_spent'', PFloat (75 / 2)), (''visits'', PInt 1),
                  (''last_visit'', PStr ''2026-11-04T10:00:00''), (''preferences'', PStr '''')]],
              sales := [row]\<rparr>) \<and>
      stored_sale sample_lib ''s1''
        (order [line ''p1'' 1 20] (75 / 2) (Some (75 / 2)) (Some ''c1'')) row"
    by (simp add: eval_base customer_stats_def shop_def order_def line_def floor_375
          cong: eval_cong)
  from create_sale_customer_stats
         [OF i9 c9 n9 p9, of "''2026-11-04T10:00:00''" "''2026-11-04T10:00:01''" "''s1''",
          unfolded f9 option.case]
  have r9:
    "\<exists>created row.
      create_sale sample_lib ''2026-11-04T10:00:00'' ''2026-11-04T10:00:01'' ''s1'' shop
        (order [line ''p1'' 1 20] (75 / 2) (Some (75 / 2)) (Some ''c9'')) =
        (Inr created,
         shop\<lparr>products := snd (sell_items sample_lib (products shop) [line ''p1'' 1 20]),
              sales := [row]\<rparr>) \<and>
      stored_sale sample_lib ''s1''
        (order [line ''p1'' 1 20] (75 / 2) (Some (75 / 2)) (Some ''c9'')) row"
    by (simp add: shop_def)
  show ?thesis
    by (intro conjI i1 c1 p1 f1 ft r1 i9 c9 p9 f9 r9)
qed

text \<open>
  The claim as it stands fails in both halves. A request that names the unknown customer
  \<^verbatim>\<open>c9\<close> and omits \<^verbatim>\<open>paid_amount\<close> does not succeed: it fails with the generic internal
  failure and no sale is stored. And a request of the existing customer \<^verbatim>\<open>c1\<close> with the
  total \<open>10\<^sup>1\<^sup>9\<close> does not update the customer: the new \<^verbatim>\<open>loyalty_points\<close> are beyond 64
  bits, the integer column does not hold them, the call fails and the customers table is
  unchanged.
\<close>

theorem create_sale_customer_counterexample:
  "customer_find_by_id sample_lib (customers shop) ''c9'' = None \<and>
   (case create_sale sample_lib ''2026-11-04T10:00:00'' ''2026-11-04T10:00:01'' ''s1'' shop
           (order [line ''p1'' 1 20] 20 None (Some ''c9'')) of
      (r, st') \<Rightarrow> r = Inl InternalFailure \<and> sales st' = sales shop) \<and>
   customer_find_by_id sample_lib (customers shop) ''c1'' \<noteq> None \<and>
   (case create_sale sample_lib ''2026-11-04T10:00:00'' ''2026-11-04T10:00:01'' ''s1'' shop
           (order [line ''p1'' 1 20] 10000000000000000000 (Some 10000000000000000000)
              (Some ''c1'')) of
      (r, st') \<Rightarrow>
        r = Inl InternalFailure \<and> customers st' = customers shop \<and> sales st' = sales shop)"
  by (simp add: eval_defs shop_def order_def line_def cong: eval_cong)

section \<open>Products: the variants codec and the sku check\<close>

text \<open>
  Claim C6 fails on the code for a cell that pandas does not load as text.
  \<^verbatim>\<open>_process_product_record\<close> decodes the \<^verbatim>\<open>variants\<close> cell when it is a string and
  replaces it by the empty list when it is missing; a cell of any other type is returned as
  it is. \<^verbatim>\<open>read_all\<close> gives the type \<^verbatim>\<open>str\<close> to the key columns only, so a products file
  whose \<^verbatim>\<open>variants\<close> cells all read \<^verbatim>\<open>True\<close> is loaded with a \<^verbatim>\<open>bool\<close> column. The text
  \<^verbatim>\<open>True\<close> is not JSON, yet the product is returned with the variants \<^verbatim>\<open>True\<close>, not with
  the empty list, by \<^verbatim>\<open>find_by_id\<close> and by \<^verbatim>\<open>get_all\<close> alike.
\<close>

theorem variants_cell_not_text:
  "json_loads sample_lib ''True'' = None \<and>
   map_option (\<lambda>product. map_of product ''variants'')
     (product_find_by_id sample_lib flagged ''p1'') = Some (Some (PBool True)) \<and>
   map (\<lambda>product. map_of product ''variants'') (product_get_all sample_lib flagged) =
     [Some (PBool True)]"
  by (simp add: eval_base flagged_def cong: eval_cong)

lemma product_dict_keys [simp]:
  "map_of (product_dict p) ''variants'' = Some (PList (map variant_dict (p_variants p)))"
  "map_of (product_dict p) ''stock'' = Some (PInt (p_stock p))"
  "map_of (product_dict p) ''price'' = Some (PFloat (p_price p))"
  "map_of (product_dict p) ''cost'' = Some (PFloat (p_cost p))"
  "map_of (product_dict p) ''id'' = None"
  by (simp_all add: product_dict_def)

lemma processed_product_numbers:
  "map_of row ''stock'' = Some (PInt n) \<Longrightarrow>
     map_of (process_product_record L row) ''stock'' = Some (PInt n)"
  "map_of row ''price'' = Some (PFloat x) \<Longrightarrow>
     map_of (process_product_record L row) ''price'' = Some (PFloat x)"
  "map_of row ''cost'' = Some (PFloat y) \<Longrightarrow>
     map_of (process_product_record L row) ''cost'' = Some (PFloat y)"
  by (simp_all add: process_product_record_def map_of_codec)

text \<open>
  On a table whose \<^verbatim>\<open>sku\<close> cells are text, \<^verbatim>\<open>create_product\<close> does what claim C7 says:
  a request whose sku is the cell of a stored row fails with \<open>Conflict\<close> and leaves the
  table as it is; any other request appends one row and returns a record whose stock is
  the request's integer and whose price and cost are its floats.
\<close>

theorem create_product_sku_text:
  "(list_ex (\<lambda>row. map_of row ''sku'' = Some (PStr (p_sku product))) df \<longrightarrow>
      create_product L uid df product = (Inl Conflict, df)) \<and>
   (\<not> list_ex (\<lambda>row. map_of row ''sku'' = Some (PStr (p_sku product))) df \<longrightarrow>
      (\<exists>created row.
         create_product L uid df product = (Inr created, df @ [row]) \<and>
         map_of row ''sku'' = Some (PStr (p_sku product)) \<and>
         map_of created ''stock'' = Some (PInt (p_stock product)) \<and>
         map_of created ''price'' = Some (PFloat (p_price product)) \<and>
         map_of created ''cost'' = Some (PFloat (p_cost product))))"
proof (intro conjI impI)
  assume "list_ex (\<lambda>row. map_of row ''sku'' = Some (PStr (p_sku product))) df"
  then have "find (\<lambda>row. map_of row ''sku'' = Some (PStr (p_sku product))) df \<noteq> None"
    by (auto simp: find_None_iff list_ex_iff)
  then show "create_product L uid df product = (Inl Conflict, df)"
    by (auto simp: create_product_def find_by_sku_def process_product_nonempty)
next
  assume "\<not> list_ex (\<lambda>row. map_of row ''sku'' = Some (PStr (p_sku product))) df"
  then have none: "find_by_sku L df (p_sku product) = None"
    by (auto simp: find_by_sku_def find_None_iff list_ex_iff split: option.splits)
  let ?d = "encode_variants L (product_dict product)"
  let ?row = "if map_of ?d ''id'' = None then AList.update ''id'' (PStr uid) ?d else ?d"
  have d: "?d = AList.update ''variants''
                  (PStr (json_dumps L (PList (map variant_dict (p_variants product)))))
                  (product_dict product)"
    by (simp add: encode_variants_def)
  have cr: "create uid df ?d = (?row, df @ [?row])"
    unfolding create_def Let_def by (rule refl)
  have pc: "product_create L uid df (product_dict product) =
              (process_product_record L ?row, df @ [?row])"
    unfolding product_create_def cr prod.case by (rule refl)
  have cells:
    "map_of ?row ''sku'' = Some (PStr (p_sku product))"
    "map_of ?row ''stock'' = Some (PInt (p_stock product))"
    "map_of ?row ''price'' = Some (PFloat (p_price product))"
    "map_of ?row ''cost'' = Some (PFloat (p_cost product))"
    unfolding d by (simp_all add: update_conv' product_dict_def)
  have "create_product L uid df product = (Inr (process_product_record L ?row), df @ [?row])"
    by (simp add: create_product_def none pc)
  with cells show "\<exists>created row.
         create_product L uid df product = (Inr created, df @ [row]) \<and>
         map_of row ''sku'' = Some (PStr (p_sku product)) \<and>
         map_of created ''stock'' = Some (PInt (p_stock product)) \<and>
         map_of created ''price'' = Some (PFloat (p_price product)) \<and>
         map_of created ''cost'' = Some (PFloat (p_cost product))"
    by (intro exI [of _ "process_product_record L ?row"] exI [of _ ?row])
       (simp add: processed_product_numbers)
qed

theorem create_product_sku_text_witness:
  "list_ex (\<lambda>row. map_of row ''sku'' = Some (PStr (p_sku (shawl\<lparr>p_sku := ''SC-1''\<rparr>))))
     (products shop) \<and>
   create_product sample_lib ''p3'' (products shop) (shawl\<lparr>p_sku := ''SC-1''\<rparr>) =
     (Inl Conflict, products shop) \<and>
   \<not> list_ex (\<lambda>row. map_of row ''sku'' = Some (PStr (p_sku shawl))) (products shop) \<and>
   (\<exists>created row.
      create_product sample_lib ''p3'' (products shop) shawl =
        (Inr created, products shop @ [row]) \<and>
      map_of row ''sku'' = Some (PStr ''SH-1'') \<and>
      map_of created ''stock'' = Some (PInt 7) \<and>
      map_of created ''price'' = Some (PFloat 45) \<and>
      map_of created ''cost'' = Some (PFloat 20))"
proof -
  have h1: "list_ex (\<lambda>row. map_of row ''sku'' = Some (PStr (p_sku (shawl\<lparr>p_sku := ''SC-1''\<rparr>))))
              (products shop)"
    by (simp add: shop_def)
  have h2: "\<not> list_ex (\<lambda>row. map_of row ''sku'' = Some (PStr (p_sku shawl))) (products shop)"
    by (simp add: shop_def shawl_def)
  note T1 = create_product_sku_text
    [where product = "shawl\<lparr>p_sku := ''SC-1''\<rparr>" and df = "products shop"
       and L = sample_lib and uid = "''p3''"]
  note T2 = create_product_sku_text
    [where product = shawl and df = "products shop" and L = sample_lib and uid = "''p3''"]
  from T1 h1
  have r1: "create_product sample_lib ''p3'' (products shop) (shawl\<lparr>p_sku := ''SC-1''\<rparr>) =
              (Inl Conflict, products shop)"
    by blast
  from T2 h2
  have r2: "\<exists>created row.
      create_product sample_lib ''p3'' (products shop) shawl =
        (Inr created, products shop @ [row]) \<and>
      map_of row ''sku'' = Some (PStr ''SH-1'') \<and>
      map_of created ''stock'' = Some (PInt 7) \<and>
      map_of created ''price'' = Some (PFloat 45) \<and>
      map_of created ''cost'' = Some (PFloat 20)"
    by (simp add: shawl_def)
  show ?thesis by (intro conjI h1 r1 h2 r2)
qed

text \<open>
  Claim C7 fails on the code for a numeric sku. \<^verbatim>\<open>read_all\<close> gives the type \<^verbatim>\<open>str\<close> to
  the key columns only (\<^verbatim>\<open>id\<close>, \<^verbatim>\<open>product_id\<close>, ...), so pandas loads a \<^verbatim>\<open>sku\<close> column
  that holds only digits as integers: the product created with the sku \<^verbatim>\<open>12345\<close> is
  loaded with the cell \<open>PInt 12345\<close>. \<^verbatim>\<open>find_by_sku\<close> compares the cells with the text of
  the request, no cell is equal to it, and \<^verbatim>\<open>create_product\<close> stores a second product
  with the same sku instead of failing with \<open>Conflict\<close>.
\<close>

theorem create_product_numeric_sku:
  "\<not> list_ex (\<lambda>row. map_of row ''sku'' = Some (PStr ''12345''))
       [[(''id'', PStr ''p1''), (''name'', PStr ''Scarf''), (''category'', PStr ''Accessories''),
         (''price'', PFloat 20), (''cost'', PFloat 8), (''stock'', PInt 5),
         (''sku'', PInt 12345), (''description'', PStr ''''), (''image'', PStr ''''),
         (''variants'', PStr ''[]'')]] \<and>
   (case create_product sample_lib ''p2''
           [[(''id'', PStr ''p1''), (''name'', PStr ''Scarf''), (''category'', PStr ''Accessories''),
             (''price'', PFloat 20), (''cost'', PFloat 8), (''stock'', PInt 5),
             (''sku'', PInt 12345), (''description'', PStr ''''), (''image'', PStr ''''),
             (''variants'', PStr ''[]'')]]
           (shawl\<lparr>p_sku := ''12345'', p_variants := []\<rparr>) of
      (r, df') \<Rightarrow>
        r \<noteq> Inl Conflict \<and>
        map (\<lambda>row. map_of row ''sku'') df' = [Some (PInt 12345), Some (PStr ''12345'')])"
  by (simp add: eval_base shawl_def cong: eval_cong)

section \<open>The analytics aggregator\<close>

lemma bnd_Inr: "bnd m f = Inr y \<Longrightarrow> \<exists>x. m = Inr x \<and> f x = Inr y"
  by (cases m) auto

lemma recent_filter: "recent c ss = Inr R \<Longrightarrow> R = filter (since c) ss"
proof (induction ss arbitrary: R)
  case Nil
  then show ?case by simp
next
  case (Cons s ss)
  from Cons.prems obtain keep rest where
    k: "py_ge_str (dict_get s ''timestamp'' (PStr '''')) c = Inr keep"
    and r: "recent c ss = Inr rest"
    and R: "R = (if keep then s # rest else rest)"
    by (auto dest!: bnd_Inr)
  from k have "keep = since c s"
    by (cases "dict_get s ''timestamp'' (PStr '''')") (auto simp: since_def sale_timestamp_def)
  with Cons.IH [OF r] R show ?case by simp
qed

lemma py_sum_eq:
  "py_sum acc vs = Inr x \<Longrightarrow>
     x = acc + sum_list (map (\<lambda>v. case py_num v of None \<Rightarrow> 0 | Some y \<Rightarrow> y) vs)"
proof (induction vs arbitrary: acc)
  case Nil
  then show ?case by simp
next
  case (Cons v vs)
  from Cons.prems obtain y where y: "py_num v = Some y" and r: "py_sum (acc + y) vs = Inr x"
    by (auto split: option.splits)
  from Cons.IH [OF r] y show ?case by (simp add: add.assoc)
qed

lemma map_of_add_to_day:
  "map_of (add_to_day d x m) k = (if k = d then Some (day_total m d + x) else map_of m k)"
  by (induction m) (auto simp: day_total_def)

lemma keys_add_to_day: "fst ` set (add_to_day d x m) = insert d (fst ` set m)"
proof (induction m)
  case Nil
  then show ?case by simp
next
  case (Cons p m)
  obtain k y where p: "p = (k, y)" by (cases p)
  show ?case
  proof (cases "k = d")
    case True
    then show ?thesis by (simp add: p)
  next
    case False
    then show ?thesis using Cons.IH by (simp add: p insert_commute)
  qed
qed

lemma distinct_add_to_day:
  "distinct (map fst m) \<Longrightarrow> distinct (map fst (add_to_day d x m))"
proof (induction m)
  case Nil
  then show ?case by simp
next
  case (Cons p m)
  have "fst ` set (add_to_day d x m) = insert d (fst ` set m)" by (rule keys_add_to_day)
  with Cons show ?case by (cases p) auto
qed

lemma day_total_add_to_day:
  "day_total (add_to_day d x m) k = (if k = d then day_total m d + x else day_total m k)"
  by (simp add: day_total_def map_of_add_to_day)

lemma daily_sales_spec:
  assumes "daily_sales R acc = Inr d" and "distinct (map fst acc)"
  shows "distinct (map fst d) \<and>
         fst ` set d = fst ` set acc \<union> sale_day ` set R \<and>
         (\<forall>day. day_total d day = day_total acc day + day_revenue R day)"
  using assms
proof (induction R arbitrary: acc)
  case Nil
  then show ?case by (simp add: day_revenue_def)
next
  case (Cons s R)
  from Cons.prems(1) obtain t x where
    t: "dict_get s ''timestamp'' (PStr '''') = PStr t"
    and x: "py_num (dict_get s ''total'' (PInt 0)) = Some x"
    and rest: "daily_sales R (add_to_day (take 10 t) x acc) = Inr d"
    by (auto split: pyval.splits option.splits)
  have day: "sale_day s = take 10 t" and tot: "sale_total s = x"
    using t x by (simp_all add: sale_day_def sale_timestamp_def sale_total_def)
  from Cons.IH [OF rest distinct_add_to_day [OF Cons.prems(2)]]
  have ih: "distinct (map fst d)"
    "fst ` set d = fst ` set (add_to_day (take 10 t) x acc) \<union> sale_day ` set R"
    "\<And>k. day_total d k = day_total (add_to_day (take 10 t) x acc) k + day_revenue R k"
    by auto
  have "\<forall>k. day_total d k = day_total acc k + day_revenue (s # R) k"
    by (simp add: ih(3) day_total_add_to_day day_revenue_def day tot)
  with ih(1,2) show ?case by (simp add: keys_add_to_day day)
qed

lemma pairs_by_key:
  "(\<And>k v. (k, v) \<in> set xs \<Longrightarrow> v = f k) \<Longrightarrow> map snd xs = map f (map fst xs)"
  by (induction xs) auto

lemma daily_sales_entries:
  assumes "daily_sales R [] = Inr d" and "(k, v) \<in> set d"
  shows "v = day_revenue R k"
proof -
  from daily_sales_spec [OF assms(1)] have dist: "distinct (map fst d)"
    and tot: "day_total d k = day_revenue R k"
    by (simp_all add: day_total_def)
  from dist assms(2) have "map_of d k = Some v" by simp
  with tot show ?thesis by (simp add: day_total_def)
qed

lemma trend_spec:
  assumes "daily_sales R [] = Inr d"
  shows "sorted (map fst (sort_key fst d)) \<and> distinct (map fst (sort_key fst d)) \<and>
         set (map fst (sort_key fst d)) = sale_day ` set R \<and>
         map snd (sort_key fst d) = map (day_revenue R) (map fst (sort_key fst d))"
proof -
  from daily_sales_spec [OF assms] have dist: "distinct (map fst d)"
    and keys: "fst ` set d = sale_day ` set R"
    by simp_all
  have "distinct (map fst (sort_key fst d))"
    using dist by (simp add: distinct_map)
  moreover have "map snd (sort_key fst d) = map (day_revenue R) (map fst (sort_key fst d))"
    by (rule pairs_by_key) (simp add: daily_sales_entries [OF assms])
  ultimately show ?thesis using keys by (simp add: sorted_sort_key)
qed

lemma recent_total:
  "list_all wf_sale ss \<Longrightarrow> \<exists>R. recent c ss = Inr R"
proof (induction ss)
  case Nil
  then show ?case by simp
next
  case (Cons s ss)
  then obtain R where R: "recent c ss = Inr R" by auto
  from Cons.prems obtain t where "dict_get s ''timestamp'' (PStr '''') = PStr t"
    by (auto simp: wf_sale_def sale_timestamp_def split: pyval.splits)
  with R show ?case by simp
qed

lemma py_sum_total:
  "list_all (\<lambda>v. py_num v \<noteq> None) vs \<Longrightarrow> \<exists>x. py_sum acc vs = Inr x"
  by (induction vs arbitrary: acc) auto

lemma items_figures_total:
  "list_all wf_item its \<Longrightarrow> \<exists>r. items_figures L df its acc = Inr r"
proof (induction its arbitrary: acc)
  case Nil
  then show ?case by simp
next
  case (Cons item its)
  from Cons.prems obtain f where "item_figures item = Inr f"
    by (cases item) (auto simp: Let_def)
  with Cons show ?case by simp
qed

lemma product_sales_total:
  "list_all wf_sale R \<Longrightarrow> \<exists>r. product_sales L df R acc = Inr r"
proof (induction R arbitrary: acc)
  case Nil
  then show ?case by simp
next
  case (Cons s R)
  from Cons.prems obtain its where its: "dict_get s ''items'' (PList []) = PList its"
    and wf: "list_all wf_item its"
    by (auto simp: wf_sale_def split: pyval.splits)
  from items_figures_total [OF wf] obtain acc' where "items_figures L df its acc = Inr acc'"
    by blast
  with its Cons show ?case by simp
qed

lemma counter_total: "list_all hashable ks \<Longrightarrow> \<exists>r. counter ks acc = Inr r"
  by (induction ks arbitrary: acc) auto

lemma daily_sales_total: "list_all wf_sale R \<Longrightarrow> \<exists>d. daily_sales R acc = Inr d"
proof (induction R arbitrary: acc)
  case Nil
  then show ?case by simp
next
  case (Cons s R)
  from Cons.prems obtain t x where "dict_get s ''timestamp'' (PStr '''') = PStr t"
    and "py_num (dict_get s ''total'' (PInt 0)) = Some x"
    by (auto simp: wf_sale_def sale_timestamp_def split: pyval.splits)
  with Cons show ?case by simp
qed

lemma analytics_total:
  assumes "list_all wf_sale (sales_get_all L (sales st))"
  shows "\<exists>a. analytics L c st = Inr a"
proof -
  from recent_total [OF assms] obtain R where R: "recent c (sales_get_all L (sales st)) = Inr R"
    by blast
  then have "R = filter (since c) (sales_get_all L (sales st))" by (rule recent_filter)
  with assms have wf: "list_all wf_sale R" by (simp add: list_all_iff)
  then have "list_all (\<lambda>v. py_num v \<noteq> None) (map (\<lambda>s. dict_get s ''total'' (PInt 0)) R)"
    by (simp add: list_all_iff wf_sale_def)
  from py_sum_total [OF this] obtain t where
    t: "py_sum 0 (map (\<lambda>s. dict_get s ''total'' (PInt 0)) R) = Inr t" by blast
  from product_sales_total [OF wf] obtain figs where
    figs: "product_sales L (products st) R [] = Inr figs" by blast
  from wf have "list_all hashable (map (\<lambda>s. dict_get s ''payment_method'' (PStr ''unknown'')) R)"
    by (simp add: list_all_iff wf_sale_def)
  from counter_total [OF this] obtain pm where
    pm: "counter (map (\<lambda>s. dict_get s ''payment_method'' (PStr ''unknown'')) R) [] = Inr pm"
    by blast
  from daily_sales_total [OF wf] obtain d where d: "daily_sales R [] = Inr d" by blast
  show ?thesis
    by (simp add: analytics_def Let_def R t figs pm d)
qed

lemma analytics_result:
  assumes "analytics L c st = Inr a"
  shows "\<exists>d. daily_sales (filter (since c) (sales_get_all L (sales st))) [] = Inr d \<and>
           total_sales a =
             sum_list (map sale_total (filter (since c) (sales_get_all L (sales st)))) \<and>
           total_transactions a = length (filter (since c) (sales_get_all L (sales st))) \<and>
           average_order_value a =
             (if filter (since c) (sales_get_all L (sales st)) = [] then 0
              else total_sales a / of_nat (total_transactions a)) \<and>
           revenue_trend a = sort_key fst d"
proof -
  let ?R = "filter (since c) (sales_get_all L (sales st))"
  from assms obtain R t figs pm d where
    R: "recent c (sales_get_all L (sales st)) = Inr R"
    and t: "py_sum 0 (map (\<lambda>s. dict_get s ''total'' (PInt 0)) R) = Inr t"
    and d: "daily_sales R [] = Inr d"
    and a: "a = \<lparr>total_sales = t, total_transactions = length R,
                 average_order_value = (if length R > 0 then t / of_nat (length R) else 0),
                 top_products = take 10 (sorted_desc figs),
                 sales_by_payment_method = pm, sales_by_day = d,
                 revenue_trend = sort_key fst d\<rparr>"
    unfolding analytics_def Let_def
    by (auto dest!: bnd_Inr)
  from R have RR: "R = ?R" by (rule recent_filter)
  from py_sum_eq [OF t] have "t = sum_list (map sale_total R)"
    by (simp add: comp_def sale_total_def [abs_def])
  with a d show ?thesis unfolding RR [symmetric] by auto
qed

text \<open>
  Claim C9. When \<^verbatim>\<open>get_sales_analytics\<close> returns a result, \<^verbatim>\<open>total_sales\<close> is the sum of
  the totals and \<^verbatim>\<open>total_transactions\<close> the number of the sale records whose timestamp is
  not below the cutoff (\<open>since\<close>): the two are compared as text, and a record is selected
  by this lower bound alone. \<^verbatim>\<open>average_order_value\<close> is the quotient of the two, and 0 when
  no record is selected. \<^verbatim>\<open>revenue_trend\<close> lists the days of the selected records in
  ascending order, each day once, with the revenue of the day. And the call returns a
  result on every sales table whose records are well formed.
\<close>

theorem analytics_since:
  "(get_sales_analytics L cutoff_date st = Inr a \<longrightarrow>
      total_sales a =
        sum_list (map sale_total (filter (since cutoff_date) (sales_get_all L (sales st)))) \<and>
      total_transactions a = length (filter (since cutoff_date) (sales_get_all L (sales st))) \<and>
      average_order_value a =
        (if filter (since cutoff_date) (sales_get_all L (sales st)) = [] then 0
         else total_sales a / of_nat (total_transactions a)) \<and>
      sorted (map fst (revenue_trend a)) \<and>
      distinct (map fst (revenue_trend a)) \<and>
      set (map fst (revenue_trend a)) =
        sale_day ` set (filter (since cutoff_date) (sales_get_all L (sales st))) \<and>
      map snd (revenue_trend a) =
        map (day_revenue (filter (since cutoff_date) (sales_get_all L (sales st))))
          (map fst (revenue_trend a))) \<and>
   (list_all wf_sale (sales_get_all L (sales st)) \<longrightarrow>
      (\<exists>r. get_sales_analytics L cutoff_date st = Inr r))"
proof (intro conjI impI)
  assume "list_all wf_sale (sales_get_all L (sales st))"
  from analytics_total [OF this, of cutoff_date]
  show "\<exists>r. get_sales_analytics L cutoff_date st = Inr r"
    by (auto simp: get_sales_analytics_def)
next
  assume "get_sales_analytics L cutoff_date st = Inr a"
  then have "analytics L cutoff_date st = Inr a"
    by (auto simp: get_sales_analytics_def split: sum.splits)
  from analytics_result [OF this] obtain d where
    d: "daily_sales (filter (since cutoff_date) (sales_get_all L (sales st))) [] = Inr d"
    and ts: "total_sales a =
               sum_list (map sale_total (filter (since cutoff_date) (sales_get_all L (sales st))))"
    and tt: "total_transactions a =
               length (filter (since cutoff_date) (sales_get_all L (sales st)))"
    and av: "average_order_value a =
               (if filter (since cutoff_date) (sales_get_all L (sales st)) = [] then 0
                else total_sales a / of_nat (total_transactions a))"
    and tr: "revenue_trend a = sort_key fst d"
    by blast
  note trend = trend_spec [OF d, folded tr]
  show "total_sales a =
          sum_list (map sale_total (filter (since cutoff_date) (sales_get_all L (sales st))))"
    by (rule ts)
  show "total_transactions a = length (filter (since cutoff_date) (sales_get_all L (sales st)))"
    by (rule tt)
  show "average_order_value a =
          (if filter (since cutoff_date) (sales_get_all L (sales st)) = [] then 0
           else total_sales a / of_nat (total_transactions a))"
    by (rule av)
  show "sorted (map fst (revenue_trend a))" using trend by blast
  show "distinct (map fst (revenue_trend a))" using trend by blast
  show "set (map fst (revenue_trend a)) =
          sale_day ` set (filter (since cutoff_date) (sales_get_all L (sales st)))"
    using trend by blast
  show "map snd (revenue_trend a) =
          map (day_revenue (filter (since cutoff_date) (sales_get_all L (sales st))))
            (map fst (revenue_trend a))"
    using trend by blast
qed

theorem analytics_since_witness:
  "list_all wf_sale (sales_get_all sample_lib (sales ledger)) \<and>
   (\<exists>a. get_sales_analytics sample_lib ''2026-10-05T08:00:00.123456'' ledger = Inr a \<and>
        total_sales a = 40 \<and> total_transactions a = 2 \<and> average_order_value a = 20 \<and>
        map fst (revenue_trend a) = [''2026-10-20'', ''2099-01-01''] \<and>
        map snd (revenue_trend a) = [30, 10])"
proof -
  let ?c = "''2026-10-05T08:00:00.123456''"
  let ?all = "sales_get_all sample_lib (sales ledger)"
  let ?s1 = "[(''id'', PStr ''s1''), (''items'', PList []), (''total'', PFloat 30),
              (''payment_method'', PStr ''cash''), (''timestamp'', PStr ''2026-10-20T09:00:00'')]"
  let ?s2 = "[(''id'', PStr ''s2''), (''items'', PList []), (''total'', PFloat 50),
              (''payment_method'', PStr ''cash''), (''timestamp'', PStr ''2026-09-01T12:00:00'')]"
  let ?s3 = "[(''id'', PStr ''s3''), (''items'', PList []), (''total'', PFloat 10),
              (''payment_method'', PStr ''credit_card''),
              (''timestamp'', PStr ''2099-01-01T00:00:00'')]"
  have all: "?all = [?s1, ?s2, ?s3]"
    by (simp add: eval_base ledger_def shop_def cong: eval_cong)
  have wf: "list_all wf_sale ?all"
    unfolding all by (simp add: wf_sale_def sale_timestamp_def dict_get_def)
  have R: "filter (since ?c) ?all = [?s1, ?s3]"
    unfolding all by (simp add: since_def sale_timestamp_def dict_get_def)
  have tot: "sum_list (map sale_total (filter (since ?c) ?all)) = 40"
    and len: "length (filter (since ?c) ?all) = 2"
    and ne: "filter (since ?c) ?all \<noteq> []"
    and days: "sale_day ` set (filter (since ?c) ?all) = set [''2026-10-20'', ''2099-01-01'']"
    and rev: "map (day_revenue (filter (since ?c) ?all)) [''2026-10-20'', ''2099-01-01''] = [30, 10]"
    unfolding R
    by (simp_all add: sale_total_def sale_day_def day_revenue_def sale_timestamp_def dict_get_def)
  note T = analytics_since [where L = sample_lib and cutoff_date = ?c and st = ledger]
  from T [THEN conjunct2, rule_format, OF wf]
  obtain a where a: "get_sales_analytics sample_lib ?c ledger = Inr a" ..
  note F = T [where a = a, THEN conjunct1, rule_format, OF a]
  note ts = F [THEN conjunct1]
  note tt = F [THEN conjunct2, THEN conjunct1]
  note av = F [THEN conjunct2, THEN conjunct2, THEN conjunct1]
  note so = F [THEN conjunct2, THEN conjunct2, THEN conjunct2, THEN conjunct1]
  note di = F [THEN conjunct2, THEN conjunct2, THEN conjunct2, THEN conjunct2, THEN conjunct1]
  note se = F [THEN conjunct2, THEN conjunct2, THEN conjunct2, THEN conjunct2, THEN conjunct2,
               THEN conjunct1]
  note sn = F [THEN conjunct2, THEN conjunct2, THEN conjunct2, THEN conjunct2, THEN conjunct2,
               THEN conjunct2]
  have keys: "map fst (revenue_trend a) = [''2026-10-20'', ''2099-01-01'']"
  proof (rule sorted_distinct_set_unique [OF so di])
    show "sorted [''2026-10-20'', ''2099-01-01'']" by simp
    show "distinct [''2026-10-20'', ''2099-01-01'']" by simp
    show "set (map fst (revenue_trend a)) = set [''2026-10-20'', ''2099-01-01'']"
      unfolding se days by (rule refl)
  qed
  have r1: "total_sales a = 40" unfolding ts tot by (rule refl)
  have r2: "total_transactions a = 2" unfolding tt len by (rule refl)
  have r3: "average_order_value a = 20" unfolding av using ne r1 r2 by simp
  have r5: "map snd (revenue_trend a) = [30, 10]" unfolding sn keys rev by (rule refl)
  show ?thesis by (intro conjI wf exI [of _ a] a r1 r2 r3 keys r5)
qed

text \<open>
  The window of the claim ends now, so a sale dated after now is outside it. The
  aggregator has no upper bound. In \<open>ledger\<close>, with the cutoff of a 30-day window that ends
  on 4 November 2026, the sale of 20 October is inside the window, the sale of 1 September
  is before it and the sale dated 1 January 2099 is after it. The sales inside the window
  total 30; the aggregator reports 40 in 2 transactions, and the day in 2099 is part of
  the revenue trend.
\<close>

theorem analytics_window_counterexample:
  "(case get_sales_analytics sample_lib ''2026-10-05T08:00:00.123456'' ledger of
      Inl e \<Rightarrow> False
    | Inr a \<Rightarrow>
        total_sales a = 40 \<and> total_transactions a = 2 \<and>
        revenue_trend a = [(''2026-10-20'', 30), (''2099-01-01'', 10)]) \<and>
   map (in_window ''2026-10-05T08:00:00.123456'' ''2026-11-04T08:00:00.123456'')
     (sales_get_all sample_lib (sales ledger)) = [True, False, False] \<and>
   sum_list (map sale_total
     (filter (in_window ''2026-10-05T08:00:00.123456'' ''2026-11-04T08:00:00.123456'')
        (sales_get_all sample_lib (sales ledger)))) = 30"
  by (simp add: eval_base eval_analytics ledger_def shop_def cong: eval_cong)

end
